theory Spec2Isabelle
  imports Complex_Main "HOL-Library.Word" "HOL-Library.Signed_Division"
begin

unbundle bit_operations_syntax

section \<open>The INA226 driver (INA226.c)\<close>

text \<open>
  A shallow embedding of \<^verbatim>\<open>INA226.c\<close>. The two headers of the driver,
  \<^verbatim>\<open>INA226.h\<close> (the structs and the enums) and \<^verbatim>\<open>INA226_callback.h\<close> (the three bus
  callbacks), are not part of the source at hand. What the C file takes from them is
  therefore a parameter of the model:
  \<^item> the bus callbacks \<^verbatim>\<open>Check_device\<close>, \<^verbatim>\<open>Transmit\<close> and \<^verbatim>\<open>Receive\<close> are the fields
    of a record \<open>transport\<close>;
  \<^item> the numeric values of the enumerators that the C file names are the fields of a
    record \<open>INA226_h\<close>.
  Integers are machine words: \<^verbatim>\<open>uint8_t\<close>, \<^verbatim>\<open>uint16_t\<close> and \<^verbatim>\<open>int32_t\<close> are
  \<open>8 word\<close>, \<open>16 word\<close> and \<open>32 word\<close>; a signed value is read with \<open>sint\<close>. Signed
  addition, multiplication and left shift wrap around (two's complement), right
  shift of a signed value is arithmetic. An integer division by zero has no value: the
  model returns \<open>None\<close> there. The conversion of a \<^verbatim>\<open>double\<close> that is out of the range
  of the integer type yields a value of that type which the platform determines: it is a
  parameter of the model.
\<close>

subsection \<open>Status codes\<close>

text \<open>
  Modelled from the spec: the enumeration \<^verbatim>\<open>status\<close> is declared in INA226.h, which is
  missing. Its enumerators are the error kinds of the spec (transport failure, invalid
  address, the two identifier mismatches, configuration verification, not initialised, bad
  parameter) and success, under the names by which INA226.c returns them. Every function
  but \<^verbatim>\<open>INA226_MeasureAll\<close> returns one of these names, so the model needs no numeric
  value for them.
\<close>

datatype status =
    OK
  | FAIL
  | INVALID_I2C_ADDRESS
  | INA226_TI_ID_MISMATCH
  | INA226_DIE_ID_MISMATCH
  | CONFIG_ERROR
  | NOT_INITIALIZED
  | BAD_PARAMETER

subsection \<open>The bus\<close>

text \<open>
  Modelled from the spec: the callbacks \<^verbatim>\<open>Check_device\<close>, \<^verbatim>\<open>Transmit\<close> and \<^verbatim>\<open>Receive\<close>
  are declared in INA226_callback.h, which is missing, and implemented by the platform.
  They are the transport adapter of the spec: probe an address with a number of trials,
  transmit bytes, receive a number of bytes, each answering 0 for success. They are a
  parameter of every function of the model. Each call is appended to a log, and the
  reply of a callback may depend on everything that happened on the bus before (the log
  at the time of the call) and on the arguments of the call. A callback is handed
  \<^verbatim>\<open>this\<close> to find the bus and the device address; the model hands it the address.
\<close>

datatype io_call =
    CheckCall "16 word" int
  | TransmitCall "8 word" "8 word list"
  | ReceiveCall "8 word" nat

record transport =
  Check_device :: "io_call list \<Rightarrow> 16 word \<Rightarrow> int \<Rightarrow> int"
  Transmit :: "io_call list \<Rightarrow> 8 word \<Rightarrow> 8 word list \<Rightarrow> int"
  Receive :: "io_call list \<Rightarrow> 8 word \<Rightarrow> nat \<Rightarrow> int \<times> 8 word \<times> 8 word"

text \<open>
  \<open>Receive\<close> is only ever asked for two bytes; its reply carries the status and the
  two bytes it left in the buffer.
\<close>

subsection \<open>Device data\<close>

text \<open>
  Modelled from the spec: the structs \<^verbatim>\<open>INA226_config\<close> and \<^verbatim>\<open>INA226\<close> are declared
  in INA226.h, which is missing. They are the device, the calibration state and the
  measurement of the spec, with the fields that INA226.c accesses. The types are those of
  the values that INA226.c stores in the fields: a \<^verbatim>\<open>uint8_t\<close> address, \<^verbatim>\<open>uint16_t\<close>
  register values, the \<^verbatim>\<open>int32_t\<close> to which the current step is cast, and the
  \<^verbatim>\<open>int32_t\<close> results of the getters. \<open>hi2c\<close> is an opaque handle.
\<close>

record INA226_config =
  mInitialized :: bool
  hi2c :: nat
  mI2C_Address :: "8 word"
  mConfigRegister :: "16 word"
  mCalibrationValue :: "16 word"
  mCurrentMicroAmpsPerBit :: "32 word"
  mPowerMicroWattPerBit :: "32 word"

record INA226_result =
  ShuntVoltage_uV :: "32 word"
  BusVoltage_uV :: "32 word"
  Current_uA :: "32 word"
  Power_uW :: "32 word"

record INA226 =
  Config :: INA226_config
  Result :: INA226_result

subsection \<open>Constants of INA226.c\<close>

definition INA226_CONFIG :: "8 word" where "INA226_CONFIG = 0x00"
definition INA226_SHUNT_VOLTAGE :: "8 word" where "INA226_SHUNT_VOLTAGE = 0x01"
definition INA226_BUS_VOLTAGE :: "8 word" where "INA226_BUS_VOLTAGE = 0x02"
definition INA226_POWER :: "8 word" where "INA226_POWER = 0x03"
definition INA226_CURRENT :: "8 word" where "INA226_CURRENT = 0x04"
definition INA226_CALIBRATION :: "8 word" where "INA226_CALIBRATION = 0x05"
definition INA226_MASK_ENABLE :: "8 word" where "INA226_MASK_ENABLE = 0x06"
definition INA226_ALERT_LIMIT :: "8 word" where "INA226_ALERT_LIMIT = 0x07"
definition INA226_MANUFACTURER_ID :: "8 word" where "INA226_MANUFACTURER_ID = 0xFE"
definition INA226_DIE_ID :: "8 word" where "INA226_DIE_ID = 0xFF"

definition INA226_BUS_VOLTAGE_LSB :: "32 word" where "INA226_BUS_VOLTAGE_LSB = 1250"
definition INA226_POWER_LSB_FACTOR :: "32 word" where "INA226_POWER_LSB_FACTOR = 25"
definition INA226_MANUFACTURER_ID_K :: "16 word" where "INA226_MANUFACTURER_ID_K = 0x5449"
definition INA226_DIE_ID_K :: "16 word" where "INA226_DIE_ID_K = 0x2260"
definition INA226_CONFIG_DEFAULT :: "16 word" where "INA226_CONFIG_DEFAULT = 0x4527"

definition cResetCommand :: "16 word" where "cResetCommand = 0x8000"
definition cOperatingModeMask :: "16 word" where "cOperatingModeMask = 0x0007"
definition cAlertPinModeMask :: "16 word" where "cAlertPinModeMask = 0xFC00"
definition cAlertCauseMask :: "16 word" where "cAlertCauseMask = 0x001E"
definition cAlertLatchingMode :: "16 word" where "cAlertLatchingMode = 0x0001"
definition cSampleAvgMask :: "16 word" where "cSampleAvgMask = 0x0E00"
definition cBusVoltageConvTimeMask :: "16 word" where "cBusVoltageConvTimeMask = 0x01C0"
definition cShuntVoltageConvTimeMask :: "16 word" where "cShuntVoltageConvTimeMask = 0x0038"
definition cSampleAvgIdxShift :: nat where "cSampleAvgIdxShift = 9"
definition cBusVoltConvTimeIdxShift :: nat where "cBusVoltConvTimeIdxShift = 6"
definition cShuntVoltConvTimeIdxShift :: nat where "cShuntVoltConvTimeIdxShift = 3"
definition cMaxSampleAvgTblIdx :: int where "cMaxSampleAvgTblIdx = 7"
definition cMaxConvTimeTblIdx :: int where "cMaxConvTimeTblIdx = 7"

subsection \<open>Construction\<close>

definition INA226_Constructor :: "INA226_config \<Rightarrow> nat \<Rightarrow> 8 word \<Rightarrow> INA226_config" where
  "INA226_Constructor this i2c_device aI2C_Address =
     this\<lparr>mInitialized := False,
          hi2c := i2c_device,
          mI2C_Address := aI2C_Address,
          mConfigRegister := 0,
          mCalibrationValue := 0,
          mCurrentMicroAmpsPerBit := 0,
          mPowerMicroWattPerBit := 0\<rparr>"

subsection \<open>Register access\<close>

definition INA226_CheckI2cAddress ::
  "transport \<Rightarrow> INA226_config \<Rightarrow> 8 word \<Rightarrow> io_call list \<Rightarrow> status \<times> io_call list" where
  "INA226_CheckI2cAddress T this aI2C_Address h =
     (if Check_device T h (ucast aI2C_Address) 10 \<noteq> 0
      then (INVALID_I2C_ADDRESS, h @ [CheckCall (ucast aI2C_Address) 10])
      else (OK, h @ [CheckCall (ucast aI2C_Address) 10]))"

text \<open>
  \<^verbatim>\<open>INA226_ReadRegister\<close> zeroes \<^verbatim>\<open>*aValue_p\<close> first and leaves it zero when it fails. The
  model returns the final content of \<^verbatim>\<open>*aValue_p\<close>; the caller stores it where the pointer
  of the C call points.
\<close>

definition INA226_ReadRegister ::
  "transport \<Rightarrow> INA226_config \<Rightarrow> 8 word \<Rightarrow> io_call list \<Rightarrow> status \<times> 16 word \<times> io_call list" where
  "INA226_ReadRegister T this aRegister h =
     (let h1 = h @ [TransmitCall (mI2C_Address this) [aRegister]] in
      if Transmit T h (mI2C_Address this) [aRegister] \<noteq> 0 then (FAIL, 0, h1)
      else
        (case Receive T h1 (mI2C_Address this) 2 of
           (r, b0, b1) \<Rightarrow>
             (let h2 = h1 @ [ReceiveCall (mI2C_Address this) 2] in
              if r \<noteq> 0 then (FAIL, 0, h2)
              else (OK, push_bit 8 (ucast b0) OR ucast b1, h2))))"

definition INA226_WriteRegister ::
  "transport \<Rightarrow> INA226_config \<Rightarrow> 8 word \<Rightarrow> 16 word \<Rightarrow> io_call list \<Rightarrow> status \<times> io_call list" where
  "INA226_WriteRegister T this aRegister aValue h =
     (let buffer = [aRegister, ucast (drop_bit 8 aValue AND 0xFF), ucast (aValue AND 0xFF)] in
      if Transmit T h (mI2C_Address this) buffer \<noteq> 0
      then (FAIL, h @ [TransmitCall (mI2C_Address this) buffer])
      else (OK, h @ [TransmitCall (mI2C_Address this) buffer]))"

subsection \<open>Measurements\<close>

text \<open>
  The four getters ignore the status of the register read and have no guard on
  \<open>mInitialized\<close>. They return the converted value; the log is returned with it.
\<close>

definition INA226_GetShuntVoltage_uV ::
  "transport \<Rightarrow> INA226 \<Rightarrow> io_call list \<Rightarrow> 32 word \<times> io_call list" where
  "INA226_GetShuntVoltage_uV T this h =
     (case INA226_ReadRegister T (Config this) INA226_SHUNT_VOLTAGE h of
        (s, theRegisterValue, h') \<Rightarrow>
          (signed_drop_bit 1 (scast theRegisterValue) + push_bit 1 (scast theRegisterValue), h'))"

definition INA226_GetBusVoltage_uV ::
  "transport \<Rightarrow> INA226 \<Rightarrow> io_call list \<Rightarrow> 32 word \<times> io_call list" where
  "INA226_GetBusVoltage_uV T this h =
     (case INA226_ReadRegister T (Config this) INA226_BUS_VOLTAGE h of
        (s, theRegisterValue, h') \<Rightarrow> (ucast theRegisterValue * INA226_BUS_VOLTAGE_LSB, h'))"

definition INA226_GetCurrent_uA ::
  "transport \<Rightarrow> INA226 \<Rightarrow> io_call list \<Rightarrow> 32 word \<times> io_call list" where
  "INA226_GetCurrent_uA T this h =
     (case INA226_ReadRegister T (Config this) INA226_CURRENT h of
        (s, theRegisterValue, h') \<Rightarrow>
          (scast theRegisterValue * mCurrentMicroAmpsPerBit (Config this), h'))"

definition INA226_GetPower_uW ::
  "transport \<Rightarrow> INA226 \<Rightarrow> io_call list \<Rightarrow> 32 word \<times> io_call list" where
  "INA226_GetPower_uW T this h =
     (case INA226_ReadRegister T (Config this) INA226_POWER h of
        (s, theRegisterValue, h') \<Rightarrow>
          (ucast theRegisterValue * mPowerMicroWattPerBit (Config this), h'))"

text \<open>
  \<^verbatim>\<open>INA226_MeasureAll\<close> ORs into \<^verbatim>\<open>int r\<close> the value of each assignment, which is the
  value the getter returned, and returns \<open>r\<close> converted to \<^verbatim>\<open>status\<close>. The model returns
  the value of \<open>r\<close>.
\<close>

definition INA226_MeasureAll ::
  "transport \<Rightarrow> INA226 \<Rightarrow> io_call list \<Rightarrow> 32 word \<times> INA226 \<times> io_call list" where
  "INA226_MeasureAll T this h =
     (case INA226_GetShuntVoltage_uV T this h of (v1, h1) \<Rightarrow>
      case INA226_GetBusVoltage_uV T this h1 of (v2, h2) \<Rightarrow>
      case INA226_GetCurrent_uA T this h2 of (v3, h3) \<Rightarrow>
      case INA226_GetPower_uW T this h3 of (v4, h4) \<Rightarrow>
        (0 OR v1 OR v2 OR v3 OR v4,
         this\<lparr>Result := (Result this)\<lparr>ShuntVoltage_uV := v1, BusVoltage_uV := v2,
                                       Current_uA := v3, Power_uW := v4\<rparr>\<rparr>,
         h4))"

subsection \<open>The helper macros\<close>

text \<open>
  \<^verbatim>\<open>#define CALL_FN(fn); { status s = fn; if(fn != OK){return s;} }\<close>

  The macro pastes its argument twice, so the call is made twice: once to initialise
  \<open>s\<close> and once more in the test. The enclosing function returns \<open>s\<close>, the status of the
  first call, when the second call does not answer \<open>OK\<close>. In the model \<open>fn\<close> is the call
  as a function of the state it works on; the result is \<open>Some s\<close> when the enclosing
  function returns \<open>s\<close>, and \<open>None\<close> when it goes on.

  \<^verbatim>\<open>#define CHECK_INITIALIZED(); if(!this->mInitialized) return NOT_INITIALIZED;\<close>
  is written out where it is used.
\<close>

definition CALL_FN :: "('s \<Rightarrow> status \<times> 's) \<Rightarrow> 's \<Rightarrow> status option \<times> 's" where
  "CALL_FN fn \<sigma> =
     (case fn \<sigma> of (s, \<sigma>1) \<Rightarrow>
      case fn \<sigma>1 of (s2, \<sigma>2) \<Rightarrow>
        (if s2 \<noteq> OK then Some s else None, \<sigma>2))"

text \<open>
  The call \<^verbatim>\<open>INA226_ReadRegister(this, INA226_CONFIG, &(this->mConfigRegister))\<close>, on the
  device data and the log.
\<close>

definition read_mConfigRegister ::
  "transport \<Rightarrow> INA226_config \<times> io_call list \<Rightarrow> status \<times> INA226_config \<times> io_call list" where
  "read_mConfigRegister T = (\<lambda>(this, h).
     case INA226_ReadRegister T this INA226_CONFIG h of
       (s, v, h') \<Rightarrow> (s, this\<lparr>mConfigRegister := v\<rparr>, h'))"

text \<open>
  A call \<^verbatim>\<open>INA226_ReadRegister(this, aRegister, &local)\<close>, on the local variable and
  the log.
\<close>

definition read_local ::
  "transport \<Rightarrow> INA226_config \<Rightarrow> 8 word \<Rightarrow> 16 word \<times> io_call list \<Rightarrow> status \<times> 16 word \<times> io_call list" where
  "read_local T this aRegister = (\<lambda>(v, h). INA226_ReadRegister T this aRegister h)"

subsection \<open>Enumerators of INA226.h\<close>

text \<open>
  The enumerations \<^verbatim>\<open>eOperatingMode\<close>, \<^verbatim>\<open>eAlertTrigger\<close> and \<^verbatim>\<open>eAlertTriggerCause\<close>
  are declared in INA226.h, which is missing. The values of the enumerators that INA226.c
  names are a parameter of the functions that name them. An argument of enumeration
  type is an \<open>int\<close>, as in C.
\<close>

record INA226_h =
  Shutdown :: int
  ShuntAndBusVoltageContinuous :: int
  ClearTriggers :: int
  ShuntVoltageOverLimit :: int
  ShuntVoltageUnderLimit :: int
  BusVoltageOverLimit :: int
  BusVoltageUnderLimit :: int
  PowerOverLimit :: int
  ConversionReady :: int
  Unknown :: int

subsection \<open>Power states and operating mode\<close>

definition INA226_Hibernate ::
  "transport \<Rightarrow> INA226_config \<Rightarrow> io_call list \<Rightarrow> status \<times> INA226_config \<times> io_call list" where
  "INA226_Hibernate T this h =
     (if \<not> mInitialized this then (NOT_INITIALIZED, this, h)
      else
        (case CALL_FN (read_mConfigRegister T) (this, h) of
           (Some s, this1, h1) \<Rightarrow> (s, this1, h1)
         | (None, this1, h1) \<Rightarrow>
             (let theTempConfigValue = mConfigRegister this1 AND NOT cOperatingModeMask in
              case INA226_WriteRegister T this1 INA226_CONFIG theTempConfigValue h1 of
                (s, h2) \<Rightarrow> (s, this1, h2))))"

definition INA226_Wakeup ::
  "INA226_h \<Rightarrow> transport \<Rightarrow> INA226_config \<Rightarrow> io_call list \<Rightarrow> status \<times> INA226_config \<times> io_call list" where
  "INA226_Wakeup H T this h =
     (if \<not> mInitialized this then (NOT_INITIALIZED, this, h)
      else
        (let theLastOperatingMode = mConfigRegister this AND cOperatingModeMask;
             this1 =
               (if uint theLastOperatingMode = Shutdown H \<or> uint theLastOperatingMode = 0
                then this\<lparr>mConfigRegister :=
                       (mConfigRegister this AND NOT cOperatingModeMask)
                         OR word_of_int (ShuntAndBusVoltageContinuous H)\<rparr>
                else this)
         in case INA226_WriteRegister T this1 INA226_CONFIG (mConfigRegister this1) h of
              (s, h1) \<Rightarrow> (s, this1, h1)))"


subsection \<open>Alert pin\<close>

text \<open>
  Division of \<^verbatim>\<open>int32_t\<close> truncates towards zero. It has no value when the divisor is
  zero or the quotient is not representable.
\<close>

definition int32_div :: "32 word \<Rightarrow> 32 word \<Rightarrow> 32 word option" where
  "int32_div a b =
     (if b = 0 \<or> (sint a = - (2 ^ 31) \<and> sint b = - 1) then None
      else Some (word_of_int (sint a sdiv sint b)))"

text \<open>
  The \<^verbatim>\<open>switch\<close> of \<^verbatim>\<open>INA226_ConfigureAlertPinTrigger\<close>: \<open>Inl\<close> is the \<^verbatim>\<open>return\<close> of
  the default branch, \<open>Inr\<close> carries \<open>theAlertValue\<close>, and \<open>None\<close> is a division
  without value.
\<close>

definition theAlertValue_of ::
  "INA226_h \<Rightarrow> INA226_config \<Rightarrow> int \<Rightarrow> 32 word \<Rightarrow> (status + 32 word) option" where
  "theAlertValue_of H this aAlertTrigger aValue =
     (if aAlertTrigger = PowerOverLimit H
      then map_option Inr (int32_div aValue (mPowerMicroWattPerBit this))
      else if aAlertTrigger = ClearTriggers H \<or> aAlertTrigger = ConversionReady H
      then Some (Inr 0)
      else if aAlertTrigger = ShuntVoltageOverLimit H \<or> aAlertTrigger = ShuntVoltageUnderLimit H
      then map_option Inr (int32_div (push_bit 1 aValue) 5)
      else if aAlertTrigger = BusVoltageOverLimit H \<or> aAlertTrigger = BusVoltageUnderLimit H
      then map_option Inr (int32_div aValue INA226_BUS_VOLTAGE_LSB)
      else Some (Inl BAD_PARAMETER))"

definition INA226_ConfigureAlertPinTrigger ::
  "INA226_h \<Rightarrow> transport \<Rightarrow> INA226_config \<Rightarrow> int \<Rightarrow> 32 word \<Rightarrow> bool \<Rightarrow> io_call list
     \<Rightarrow> (status \<times> INA226_config \<times> io_call list) option" where
  "INA226_ConfigureAlertPinTrigger H T this aAlertTrigger aValue aLatching h =
     (if \<not> mInitialized this then Some (NOT_INITIALIZED, this, h)
      else
        (case CALL_FN (read_local T this INA226_MASK_ENABLE) (0, h) of
           (Some s, v, h1) \<Rightarrow> Some (s, this, h1)
         | (None, v, h1) \<Rightarrow>
             (let m1 = (v AND NOT cAlertPinModeMask) OR word_of_int aAlertTrigger;
                  theMaskEnableRegister = (if aLatching then m1 OR cAlertLatchingMode else m1)
              in case theAlertValue_of H this aAlertTrigger aValue of
                   None \<Rightarrow> None
                 | Some (Inl s) \<Rightarrow> Some (s, this, h1)
                 | Some (Inr theAlertValue) \<Rightarrow>
                     (case CALL_FN (INA226_WriteRegister T this INA226_ALERT_LIMIT (ucast theAlertValue)) h1 of
                        (Some s, h2) \<Rightarrow> Some (s, this, h2)
                      | (None, h2) \<Rightarrow>
                          (case INA226_WriteRegister T this INA226_MASK_ENABLE theMaskEnableRegister h2 of
                             (s, h3) \<Rightarrow> Some (s, this, h3))))))"

text \<open>
  \<^verbatim>\<open>INA226_ResetAlertPin\<close> returns the status and the final content of
  \<^verbatim>\<open>*aAlertTriggerCause_p\<close>.
\<close>

definition INA226_ResetAlertPin ::
  "INA226_h \<Rightarrow> transport \<Rightarrow> INA226_config \<Rightarrow> io_call list \<Rightarrow> status \<times> int \<times> io_call list" where
  "INA226_ResetAlertPin H T this h =
     (if \<not> mInitialized this then (NOT_INITIALIZED, Unknown H, h)
      else
        (case CALL_FN (read_local T this INA226_MASK_ENABLE) (0, h) of
           (Some s, v, h1) \<Rightarrow> (s, Unknown H, h1)
         | (None, theTriggerCause, h1) \<Rightarrow> (OK, uint (theTriggerCause AND cAlertCauseMask), h1)))"

subsection \<open>Conversion time and averaging\<close>

definition INA226_ConfigureVoltageConversionTime ::
  "transport \<Rightarrow> INA226_config \<Rightarrow> int \<Rightarrow> io_call list \<Rightarrow> status \<times> INA226_config \<times> io_call list" where
  "INA226_ConfigureVoltageConversionTime T this aIndexToConversionTimeTable h =
     (if \<not> mInitialized this then (NOT_INITIALIZED, this, h)
      else if aIndexToConversionTimeTable < 0 \<or> aIndexToConversionTimeTable > cMaxConvTimeTblIdx
      then (BAD_PARAMETER, this, h)
      else
        (case CALL_FN (read_mConfigRegister T) (this, h) of
           (Some s, this1, h1) \<Rightarrow> (s, this1, h1)
         | (None, this1, h1) \<Rightarrow>
             (let cleared = mConfigRegister this1
                              AND NOT (cBusVoltageConvTimeMask OR cShuntVoltageConvTimeMask);
                  theMergedBusAndShuntConvTimeIndicies =
                    push_bit cBusVoltConvTimeIdxShift (word_of_int aIndexToConversionTimeTable)
                      OR push_bit cShuntVoltConvTimeIdxShift (word_of_int aIndexToConversionTimeTable);
                  this2 = this1\<lparr>mConfigRegister := cleared OR theMergedBusAndShuntConvTimeIndicies\<rparr>
              in case INA226_WriteRegister T this2 INA226_CONFIG (mConfigRegister this2) h1 of
                   (s, h2) \<Rightarrow> (s, this2, h2))))"

definition INA226_ConfigureNumSampleAveraging ::
  "transport \<Rightarrow> INA226_config \<Rightarrow> int \<Rightarrow> io_call list \<Rightarrow> status \<times> INA226_config \<times> io_call list" where
  "INA226_ConfigureNumSampleAveraging T this aIndexToSampleAverageTable h =
     (if \<not> mInitialized this then (NOT_INITIALIZED, this, h)
      else if aIndexToSampleAverageTable < 0 \<or> aIndexToSampleAverageTable > cMaxSampleAvgTblIdx
      then (BAD_PARAMETER, this, h)
      else
        (case CALL_FN (read_mConfigRegister T) (this, h) of
           (Some s, this1, h1) \<Rightarrow> (s, this1, h1)
         | (None, this1, h1) \<Rightarrow>
             (let cleared = mConfigRegister this1 AND NOT cSampleAvgMask;
                  this2 = this1\<lparr>mConfigRegister :=
                            cleared OR word_of_int (push_bit cSampleAvgIdxShift aIndexToSampleAverageTable)\<rparr>
              in case INA226_WriteRegister T this2 INA226_CONFIG (mConfigRegister this2) h1 of
                   (s, h2) \<Rightarrow> (s, this2, h2))))"

definition INA226_Debug_GetConfigRegister ::
  "transport \<Rightarrow> INA226_config \<Rightarrow> 16 word \<Rightarrow> io_call list \<Rightarrow> status \<times> 16 word \<times> io_call list" where
  "INA226_Debug_GetConfigRegister T this aConfigReg h =
     (if \<not> mInitialized this then (NOT_INITIALIZED, aConfigReg, h)
      else INA226_ReadRegister T this INA226_CONFIG h)"

subsection \<open>Calibration\<close>

text \<open>
  \<^verbatim>\<open>INA226_setupCalibration\<close> computes in \<^verbatim>\<open>double\<close>. A \<^verbatim>\<open>double\<close> is modelled by the
  real number it denotes, and every arithmetic operation and every decimal literal is
  followed by the rounding \<open>rnd\<close> of the platform, a parameter of the model (the
  identity gives exact arithmetic). \<^verbatim>\<open>ceil\<close> is exact. The literals \<^verbatim>\<open>1000000.0\<close>
  and \<^verbatim>\<open>32767.0\<close> are integers and need no rounding.

  The conversion of a \<^verbatim>\<open>double\<close> to an integer type drops the fraction. When the
  integral part is not representable in the type, C leaves the result open and the
  platform determines it: \<open>conversions\<close> holds, for either type, the value that the
  platform's conversion yields then. A quotient with divisor zero is an infinity or a NaN
  (\<open>None\<close> below), which is never representable.
\<close>

record conversions =
  int32_beyond :: "real \<Rightarrow> 32 word"
  uint16_beyond :: "real option \<Rightarrow> 16 word"

definition double_trunc :: "real \<Rightarrow> int" where
  "double_trunc x = (if 0 \<le> x then \<lfloor>x\<rfloor> else \<lceil>x\<rceil>)"

definition double_to_int32 :: "conversions \<Rightarrow> real \<Rightarrow> 32 word" where
  "double_to_int32 cv x =
     (if - (2 ^ 31) \<le> double_trunc x \<and> double_trunc x < 2 ^ 31
      then word_of_int (double_trunc x) else int32_beyond cv x)"

definition double_to_uint16 :: "conversions \<Rightarrow> real option \<Rightarrow> 16 word" where
  "double_to_uint16 cv y =
     (case y of
        None \<Rightarrow> uint16_beyond cv None
      | Some x \<Rightarrow>
          if 0 \<le> double_trunc x \<and> double_trunc x < 2 ^ 16
          then word_of_int (double_trunc x) else uint16_beyond cv (Some x))"

text \<open>The two local variables of \<^verbatim>\<open>INA226_setupCalibration\<close>.\<close>

definition theCurrentLSB :: "(real \<Rightarrow> real) \<Rightarrow> real \<Rightarrow> real" where
  "theCurrentLSB rnd aMaxCurrent_Amps =
     of_int \<lceil>rnd (rnd (aMaxCurrent_Amps * 1000000) / 32767)\<rceil>"

definition theCal :: "(real \<Rightarrow> real) \<Rightarrow> real \<Rightarrow> real \<Rightarrow> real option" where
  "theCal rnd aShuntResistor_Ohms aMaxCurrent_Amps =
     (let d = rnd (aShuntResistor_Ohms * rnd (theCurrentLSB rnd aMaxCurrent_Amps / 1000000)) in
      if d = 0 then None else Some (rnd (rnd (521 / 100000) / d)))"

definition INA226_setupCalibration ::
  "(real \<Rightarrow> real) \<Rightarrow> conversions \<Rightarrow> transport \<Rightarrow> INA226_config \<Rightarrow> real \<Rightarrow> real \<Rightarrow> io_call list
     \<Rightarrow> status \<times> INA226_config \<times> io_call list" where
  "INA226_setupCalibration rnd cv T this aShuntResistor_Ohms aMaxCurrent_Amps h =
     (let this1 = this\<lparr>mCurrentMicroAmpsPerBit :=
                          double_to_int32 cv (theCurrentLSB rnd aMaxCurrent_Amps)\<rparr>;
          this2 = this1\<lparr>mCalibrationValue :=
                           double_to_uint16 cv (theCal rnd aShuntResistor_Ohms aMaxCurrent_Amps)\<rparr>;
          this3 = this2\<lparr>mPowerMicroWattPerBit :=
                           mCurrentMicroAmpsPerBit this2 * INA226_POWER_LSB_FACTOR\<rparr>
      in case INA226_WriteRegister T this3 INA226_CALIBRATION (mCalibrationValue this3) h of
           (s, h') \<Rightarrow> (s, this3, h'))"

text \<open>
  What the examples below take of the platform's rounding: a value whose magnitude lies
  between \<^verbatim>\<open>2^-64\<close> and \<^verbatim>\<open>2^64\<close>, well inside the range of the normal doubles, is
  moved by at most the fraction \<^verbatim>\<open>2^-53\<close> of itself, as rounding to the nearest double
  does. Exact arithmetic (the identity) is one such rounding.
\<close>

definition double_rounding :: "(real \<Rightarrow> real) \<Rightarrow> bool" where
  "double_rounding rnd \<longleftrightarrow>
     (\<forall>x. 1 / 2 ^ 64 \<le> \<bar>x\<bar> \<and> \<bar>x\<bar> \<le> 2 ^ 64 \<longrightarrow> \<bar>rnd x - x\<bar> \<le> \<bar>x\<bar> / 2 ^ 53)"

subsection \<open>Initialisation\<close>

definition INA226_Init ::
  "(real \<Rightarrow> real) \<Rightarrow> conversions \<Rightarrow> transport \<Rightarrow> INA226 \<Rightarrow> nat \<Rightarrow> 8 word \<Rightarrow> real \<Rightarrow> real
     \<Rightarrow> io_call list \<Rightarrow> status \<times> INA226 \<times> io_call list" where
  "INA226_Init rnd cv T this i2c_device aI2C_Address aShuntResistor_Ohms aMaxCurrent_Amps h =
     (let c0 = INA226_Constructor (Config this) i2c_device aI2C_Address;
          this0 = this\<lparr>Config := c0\<rparr>
      in
      case CALL_FN (INA226_CheckI2cAddress T c0 aI2C_Address) h of
        (Some s, h1) \<Rightarrow> (s, this0, h1)
      | (None, h1) \<Rightarrow>
      (case CALL_FN (read_local T c0 INA226_MANUFACTURER_ID) (0, h1) of
        (Some s, theINA226_ID, h2) \<Rightarrow> (s, this0, h2)
      | (None, theINA226_ID, h2) \<Rightarrow>
      if theINA226_ID \<noteq> INA226_MANUFACTURER_ID_K then (INA226_TI_ID_MISMATCH, this0, h2)
      else
      (case CALL_FN (read_local T c0 INA226_DIE_ID) (theINA226_ID, h2) of
        (Some s, theINA226_ID, h3) \<Rightarrow> (s, this0, h3)
      | (None, theINA226_ID, h3) \<Rightarrow>
      if theINA226_ID \<noteq> INA226_DIE_ID_K then (INA226_DIE_ID_MISMATCH, this0, h3)
      else
      (case CALL_FN (INA226_WriteRegister T c0 INA226_CONFIG cResetCommand) h3 of
        (Some s, h4) \<Rightarrow> (s, this0, h4)
      | (None, h4) \<Rightarrow>
      (case CALL_FN (INA226_WriteRegister T c0 INA226_CONFIG INA226_CONFIG_DEFAULT) h4 of
        (Some s, h5) \<Rightarrow> (s, this0, h5)
      | (None, h5) \<Rightarrow>
      (case CALL_FN (read_mConfigRegister T) (c0, h5) of
        (Some s, c1, h6) \<Rightarrow> (s, this\<lparr>Config := c1\<rparr>, h6)
      | (None, c1, h6) \<Rightarrow>
      if mConfigRegister c1 \<noteq> INA226_CONFIG_DEFAULT then (CONFIG_ERROR, this\<lparr>Config := c1\<rparr>, h6)
      else
      (case CALL_FN
              (\<lambda>(c, h). INA226_setupCalibration rnd cv T c aShuntResistor_Ohms aMaxCurrent_Amps h)
              (c1, h6) of
        (Some s, c2, h7) \<Rightarrow> (s, this\<lparr>Config := c2\<rparr>, h7)
      | (None, c2, h7) \<Rightarrow>
          (OK, this\<lparr>Config := c2\<lparr>mInitialized := True\<rparr>\<rparr>, h7))))))))"

section \<open>Buses and devices for the examples\<close>

text \<open>
  Concrete transports, on which the model is run in the examples below: a bus on
  which every callback fails, a bus on which every callback succeeds and every receive
  delivers the same two bytes, and a simulated chip. The chip keeps a register pointer and a
  register file; a one-byte transmit sets the pointer, a three-byte transmit writes a
  writable register (a write to the configuration register with the reset bit set restores
  its reset value), and a receive delivers the register under the pointer.
\<close>

definition bus_dead :: transport where
  "bus_dead =
     \<lparr>Check_device = (\<lambda>h a n. 1),
      Transmit = (\<lambda>h a bs. 1),
      Receive = (\<lambda>h a n. (1, 0, 0))\<rparr>"

definition bus_answering :: "8 word \<Rightarrow> 8 word \<Rightarrow> transport" where
  "bus_answering b0 b1 =
     \<lparr>Check_device = (\<lambda>h a n. 0),
      Transmit = (\<lambda>h a bs. 0),
      Receive = (\<lambda>h a n. (0, b0, b1))\<rparr>"

fun chip_step :: "8 word \<times> (8 word \<Rightarrow> 16 word) \<Rightarrow> io_call \<Rightarrow> 8 word \<times> (8 word \<Rightarrow> 16 word)" where
  "chip_step (p, regs) (TransmitCall a [r]) = (r, regs)"
| "chip_step (p, regs) (TransmitCall a [r, hi, lo]) =
     (r, if r = 0x00 \<and> bit hi 7 then regs(0x00 := 0x4127)
         else if r = 0x00 \<or> r = 0x05 \<or> r = 0x06 \<or> r = 0x07
         then regs(r := push_bit 8 (ucast hi) OR ucast lo)
         else regs)"
| "chip_step (p, regs) c = (p, regs)"

definition chip_power_on :: "8 word \<times> (8 word \<Rightarrow> 16 word)" where
  "chip_power_on =
     (0x00, \<lambda>r. if r = 0x00 then 0x4127 else if r = 0xFE then 0x5449
                 else if r = 0xFF then 0x2260 else 0)"

definition chip :: transport where
  "chip =
     \<lparr>Check_device = (\<lambda>h a n. 0),
      Transmit = (\<lambda>h a bs. 0),
      Receive = (\<lambda>h a n. case foldl chip_step chip_power_on h of
                   (p, regs) \<Rightarrow> (0, ucast (drop_bit 8 (regs p)), ucast (regs p)))\<rparr>"

text \<open>A transport on which the call made when the log has \<open>n\<close> entries fails.\<close>

definition failing_at :: "nat \<Rightarrow> transport \<Rightarrow> transport" where
  "failing_at n T =
     \<lparr>Check_device = (\<lambda>h a k. if length h = n then 1 else Check_device T h a k),
      Transmit = (\<lambda>h a bs. if length h = n then 1 else Transmit T h a bs),
      Receive = (\<lambda>h a k. if length h = n then (1, 0, 0) else Receive T h a k)\<rparr>"

text \<open>
  Conversions that saturate: a double beyond the range converts to the nearest end of the
  range.
\<close>

definition saturating :: conversions where
  "saturating =
     \<lparr>int32_beyond = (\<lambda>x. if x < 0 then 0x80000000 else 0x7FFFFFFF),
      uint16_beyond = (\<lambda>y. case y of None \<Rightarrow> 0xFFFF
                                | Some x \<Rightarrow> if x < 0 then 0 else 0xFFFF)\<rparr>"

text \<open>
  One assignment of values to the enumerators: the encodings of the mode bits of the
  configuration register and of the alert bits of the mask/enable register of the chip.
\<close>

definition chip_enumerators :: INA226_h where
  "chip_enumerators =
     \<lparr>Shutdown = 4,
      ShuntAndBusVoltageContinuous = 7,
      ClearTriggers = 0x0000,
      ShuntVoltageOverLimit = 0x8000,
      ShuntVoltageUnderLimit = 0x4000,
      BusVoltageOverLimit = 0x2000,
      BusVoltageUnderLimit = 0x1000,
      PowerOverLimit = 0x0800,
      ConversionReady = 0x0400,
      Unknown = 0\<rparr>"

text \<open>
  A device before construction, and the device that \<^verbatim>\<open>INA226_Init\<close> leaves on the
  simulated chip for a shunt of 0.01 Ohm and a maximal current of 20 A.
\<close>

definition fresh :: INA226 where
  "fresh =
     \<lparr>Config = \<lparr>mInitialized = False, hi2c = 0, mI2C_Address = 0, mConfigRegister = 0,
                 mCalibrationValue = 0, mCurrentMicroAmpsPerBit = 0,
                 mPowerMicroWattPerBit = 0\<rparr>,
      Result = \<lparr>ShuntVoltage_uV = 0, BusVoltage_uV = 0, Current_uA = 0, Power_uW = 0\<rparr>\<rparr>"

definition ready :: INA226 where
  "ready =
     \<lparr>Config = \<lparr>mInitialized = True, hi2c = 1, mI2C_Address = 0x40, mConfigRegister = 0x4527,
                 mCalibrationValue = 852, mCurrentMicroAmpsPerBit = 611,
                 mPowerMicroWattPerBit = 15275\<rparr>,
      Result = \<lparr>ShuntVoltage_uV = 0, BusVoltage_uV = 0, Current_uA = 0, Power_uW = 0\<rparr>\<rparr>"

section \<open>Properties\<close>

subsection \<open>Unfolding the model\<close>

lemmas register_defs =
  INA226_CONFIG_def INA226_SHUNT_VOLTAGE_def INA226_BUS_VOLTAGE_def INA226_POWER_def
  INA226_CURRENT_def INA226_CALIBRATION_def INA226_MASK_ENABLE_def INA226_ALERT_LIMIT_def
  INA226_MANUFACTURER_ID_def INA226_DIE_ID_def

lemmas constant_defs =
  INA226_BUS_VOLTAGE_LSB_def INA226_POWER_LSB_FACTOR_def INA226_MANUFACTURER_ID_K_def
  INA226_DIE_ID_K_def INA226_CONFIG_DEFAULT_def cResetCommand_def cOperatingModeMask_def
  cAlertPinModeMask_def cAlertCauseMask_def cAlertLatchingMode_def cSampleAvgMask_def
  cBusVoltageConvTimeMask_def cShuntVoltageConvTimeMask_def cSampleAvgIdxShift_def
  cBusVoltConvTimeIdxShift_def cShuntVoltConvTimeIdxShift_def cMaxSampleAvgTblIdx_def
  cMaxConvTimeTblIdx_def

lemmas access_defs =
  INA226_CheckI2cAddress_def INA226_ReadRegister_def INA226_WriteRegister_def
  CALL_FN_def read_local_def read_mConfigRegister_def

lemmas getter_defs =
  INA226_GetShuntVoltage_uV_def INA226_GetBusVoltage_uV_def INA226_GetCurrent_uA_def
  INA226_GetPower_uW_def

lemmas calibration_defs =
  INA226_setupCalibration_def theCal_def theCurrentLSB_def double_to_int32_def
  double_to_uint16_def double_trunc_def

lemmas example_defs =
  bus_dead_def bus_answering_def chip_def chip_power_on_def failing_at_def saturating_def
  chip_enumerators_def fresh_def ready_def

subsection \<open>The simulated chip accepts the driver\<close>

text \<open>
  On the simulated chip \<^verbatim>\<open>INA226_Init\<close> succeeds and leaves the device \<open>ready\<close>.
\<close>

lemma Init_on_chip:
  "\<exists>h. INA226_Init id saturating chip fresh 1 0x40 (1 / 100) 20 [] = (OK, ready, h)"
  by (simp add: INA226_Init_def INA226_Constructor_def access_defs calibration_defs
      register_defs constant_defs example_defs Let_def)

subsection \<open>Signed 16-bit counts in 32-bit arithmetic\<close>

lemma sint16_32: "sint (scast (v :: 16 word) :: 32 word) = sint v"
  by (rule sint_up_scast) (simp add: is_up)

lemma sint16_range: "- 32768 \<le> sint (v :: 16 word) \<and> sint v < 32768"
  using sint_range_size [of v] by (simp add: word_size)

lemma shunt_arith:
  "sint (signed_drop_bit 1 (scast v) + push_bit 1 (scast v) :: 32 word)
     = 2 * sint (v :: 16 word) + sint v div 2"
proof -
  have a: "sint (signed_drop_bit 1 (scast v :: 32 word)) = sint v div 2"
    by (simp add: sint_signed_drop_bit_eq sint16_32 drop_bit_eq_div)
  have b: "sint (push_bit 1 (scast v :: 32 word)) = 2 * sint v"
  proof -
    have "push_bit 1 (scast v :: 32 word) = 2 * scast v"
      by (simp add: push_bit_eq_mult)
    then have "sint (push_bit 1 (scast v :: 32 word)) = signed_take_bit 31 (2 * sint v)"
      by (simp add: sint_word_mult sint16_32 mult.commute)
    also have "\<dots> = 2 * sint v"
      using sint16_range [of v] by (intro signed_take_bit_int_eq_self) auto
    finally show ?thesis .
  qed
  have "sint (signed_drop_bit 1 (scast v) + push_bit 1 (scast v) :: 32 word)
        = signed_take_bit 31 (sint v div 2 + 2 * sint v)"
    unfolding sint_word_add a b by simp
  also have "\<dots> = sint v div 2 + 2 * sint v"
    using sint16_range [of v] by (intro signed_take_bit_int_eq_self) auto
  finally show ?thesis by simp
qed

subsection \<open>Every 16-bit count can arrive\<close>

lemma bytes_of_word16:
  "push_bit 8 (ucast (ucast (drop_bit 8 raw) :: 8 word)) OR ucast (ucast raw :: 8 word)
     = (raw :: 16 word)"
  by (rule bit_word_eqI) (auto simp: bit_simps)

lemma every_count_can_be_read:
  "INA226_ReadRegister (bus_answering (ucast (drop_bit 8 raw)) (ucast raw)) this r h
     = (OK, raw, h @ [TransmitCall (mI2C_Address this) [r], ReceiveCall (mI2C_Address this) 2])"
  by (simp add: INA226_ReadRegister_def bus_answering_def Let_def bytes_of_word16)

subsection \<open>Register reads and writes on the bus\<close>

text \<open>
  The register functions use the device data only for the bus address; what a read or
  a write leaves in the log; a double read under \<^verbatim>\<open>CALL_FN\<close>.
\<close>

lemma ReadRegister_mConfigRegister [simp]:
  "INA226_ReadRegister T (this\<lparr>mConfigRegister := v\<rparr>) r h = INA226_ReadRegister T this r h"
  by (simp add: INA226_ReadRegister_def Let_def split: prod.splits)

lemma WriteRegister_mConfigRegister [simp]:
  "INA226_WriteRegister T (this\<lparr>mConfigRegister := v\<rparr>) r w h
     = INA226_WriteRegister T this r w h"
  by (simp add: INA226_WriteRegister_def Let_def)

lemma ReadRegister_log:
  assumes "INA226_ReadRegister T this r h = (s, v, h')"
  shows "h' = h @ [TransmitCall (mI2C_Address this) [r]]
       \<or> h' = h @ [TransmitCall (mI2C_Address this) [r], ReceiveCall (mI2C_Address this) 2]"
  using assms by (auto simp: INA226_ReadRegister_def Let_def split: if_splits prod.splits)

lemma ReadRegister_never_failing:
  assumes "\<forall>h bs. Transmit T h (mI2C_Address this) bs = 0"
      and "\<forall>h n. fst (Receive T h (mI2C_Address this) n) = 0"
  shows "fst (INA226_ReadRegister T this r h) = OK"
  using assms(1) assms(2) [rule_format, of "h @ [TransmitCall (mI2C_Address this) [r]]" 2]
  by (auto simp: INA226_ReadRegister_def Let_def split: prod.splits)

lemma WriteRegister_log:
  "snd (INA226_WriteRegister T this r w h)
     = h @ [TransmitCall (mI2C_Address this)
              [r, ucast (drop_bit 8 w AND 0xFF), ucast (w AND 0xFF)]]"
  by (simp add: INA226_WriteRegister_def Let_def)

lemma WriteRegister_case:
  "(case INA226_WriteRegister T this r w h of (s, h') \<Rightarrow> f s h')
     = f (fst (INA226_WriteRegister T this r w h))
         (h @ [TransmitCall (mI2C_Address this)
                 [r, ucast (drop_bit 8 w AND 0xFF), ucast (w AND 0xFF)]])"
  by (simp add: INA226_WriteRegister_def Let_def)

lemma CALL_FN_read_mConfigRegister:
  assumes "INA226_ReadRegister T this INA226_CONFIG h = (s1, v1, h1)"
      and "INA226_ReadRegister T this INA226_CONFIG h1 = (s2, v, h2)"
  shows "CALL_FN (read_mConfigRegister T) (this, h)
           = (if s2 \<noteq> OK then Some s1 else None, this\<lparr>mConfigRegister := v\<rparr>, h2)"
  using assms by (simp add: CALL_FN_def read_mConfigRegister_def)

lemma CALL_FN_read_local:
  assumes "INA226_ReadRegister T this r h = (s1, v1, h1)"
      and "INA226_ReadRegister T this r h1 = (s2, v, h2)"
  shows "CALL_FN (read_local T this r) (v0, h) = (if s2 \<noteq> OK then Some s1 else None, v, h2)"
  using assms by (simp add: CALL_FN_def read_local_def)


subsection \<open>Bit fields of a 16-bit register\<close>

lemma field_update_frame:
  fixes v k m :: "16 word"
  assumes "k AND NOT m = 0"
  shows "((v AND NOT m) OR k) AND NOT m = v AND NOT m"
    and "((v AND NOT m) OR k) AND m = k"
proof -
  show "((v AND NOT m) OR k) AND NOT m = v AND NOT m"
    using assms by (simp add: bit.conj_disj_distrib2)
  have "k AND m = k"
    using assms
    by (metis bit.conj_disj_distrib bit.conj_one_right bit.disj_cancel_right
        bit.disj_zero_right)
  then show "((v AND NOT m) OR k) AND m = k"
    by (simp add: bit.conj_disj_distrib2 and.assoc)
qed

lemma index_cases:
  assumes "0 \<le> (i::int)" and "i \<le> 7"
  shows "i = 0 \<or> i = 1 \<or> i = 2 \<or> i = 3 \<or> i = 4 \<or> i = 5 \<or> i = 6 \<or> i = 7"
  using assms by presburger

lemma averaging_field:
  assumes "0 \<le> (i::int)" and "i \<le> 7"
  shows "(word_of_int (push_bit cSampleAvgIdxShift i) :: 16 word) AND NOT cSampleAvgMask = 0"
  using index_cases [OF assms] by (auto simp: constant_defs)

lemma conversion_field:
  assumes "0 \<le> (i::int)" and "i \<le> 7"
  shows "(push_bit cBusVoltConvTimeIdxShift (word_of_int i)
            OR push_bit cShuntVoltConvTimeIdxShift (word_of_int i) :: 16 word)
           AND NOT (cBusVoltageConvTimeMask OR cShuntVoltageConvTimeMask) = 0"
  using index_cases [OF assms] by (auto simp: constant_defs)

lemma conversion_fields_same_index:
  assumes "0 \<le> (i::int)" and "i \<le> 7"
  shows "drop_bit 6 ((push_bit cBusVoltConvTimeIdxShift (word_of_int i)
            OR push_bit cShuntVoltConvTimeIdxShift (word_of_int i) :: 16 word)
              AND cBusVoltageConvTimeMask) = word_of_int i"
    and "drop_bit 3 ((push_bit cBusVoltConvTimeIdxShift (word_of_int i)
            OR push_bit cShuntVoltConvTimeIdxShift (word_of_int i) :: 16 word)
              AND cShuntVoltageConvTimeMask) = word_of_int i"
  using index_cases [OF assms] by (auto simp: constant_defs)

subsection \<open>Measure all\<close>

text \<open>
  A getter whose register read fails returns 0, so \<^verbatim>\<open>INA226_MeasureAll\<close> returns 0 on
  every transport on which no register read succeeds.
\<close>

lemma ReadRegister_failed_is_zero:
  assumes "fst (INA226_ReadRegister T this r h) \<noteq> OK"
  shows "fst (snd (INA226_ReadRegister T this r h)) = 0"
  using assms by (auto simp: INA226_ReadRegister_def Let_def split: if_splits prod.splits)

lemma getters_when_the_read_fails:
  assumes "fst (INA226_ReadRegister T (Config this) r h) \<noteq> OK"
  shows "r = INA226_SHUNT_VOLTAGE \<Longrightarrow> fst (INA226_GetShuntVoltage_uV T this h) = 0"
    and "r = INA226_BUS_VOLTAGE \<Longrightarrow> fst (INA226_GetBusVoltage_uV T this h) = 0"
    and "r = INA226_CURRENT \<Longrightarrow> fst (INA226_GetCurrent_uA T this h) = 0"
    and "r = INA226_POWER \<Longrightarrow> fst (INA226_GetPower_uW T this h) = 0"
  using ReadRegister_failed_is_zero [OF assms]
  by (auto simp: getter_defs split: prod.splits)

lemma MeasureAll_when_every_read_fails:
  assumes "\<forall>r h. fst (INA226_ReadRegister T (Config this) r h) \<noteq> OK"
  shows "fst (INA226_MeasureAll T this h) = 0"
proof -
  have g: "fst (INA226_GetShuntVoltage_uV T this h) = 0"
    "fst (INA226_GetBusVoltage_uV T this h) = 0"
    "fst (INA226_GetCurrent_uA T this h) = 0"
    "fst (INA226_GetPower_uW T this h) = 0" for h
    using assms getters_when_the_read_fails [of T this _ h] by blast+
  obtain v1 h1 where 1: "INA226_GetShuntVoltage_uV T this h = (v1, h1)"
    by (cases "INA226_GetShuntVoltage_uV T this h")
  obtain v2 h2 where 2: "INA226_GetBusVoltage_uV T this h1 = (v2, h2)"
    by (cases "INA226_GetBusVoltage_uV T this h1")
  obtain v3 h3 where 3: "INA226_GetCurrent_uA T this h2 = (v3, h3)"
    by (cases "INA226_GetCurrent_uA T this h2")
  obtain v4 h4 where 4: "INA226_GetPower_uW T this h3 = (v4, h4)"
    by (cases "INA226_GetPower_uW T this h3")
  have "v1 = 0" "v2 = 0" "v3 = 0" "v4 = 0"
    using g(1) [of h] g(2) [of h1] g(3) [of h2] g(4) [of h3] 1 2 3 4 by simp_all
  then show ?thesis
    by (simp add: INA226_MeasureAll_def 1 2 3 4)
qed

text \<open>
  Claim C1 says that \<^verbatim>\<open>INA226_MeasureAll\<close> returns success exactly when all four
  register reads succeeded. The function returns the bitwise OR of the four measured
  values, not of the four read statuses, which the getters discard. On the calibrated
  device \<open>ready\<close>:
  \<^item> on the bus where every transfer fails, every register read answers \<open>FAIL\<close> and
    the function returns 0;
  \<^item> on the bus where every read succeeds and delivers the count 0, it returns the same 0;
  \<^item> on the bus where every read succeeds and delivers the count 1, it returns
    16363, the OR of 2, 1250, 611 and 15275.
  So the returned integer is the same for four failed and for four successful reads, and
  differs between two runs in which all four reads succeed.
\<close>

theorem MeasureAll_returns_OR_of_values:
  "(\<forall>r h. fst (INA226_ReadRegister bus_dead (Config ready) r h) = FAIL)
   \<and> fst (INA226_MeasureAll bus_dead ready []) = 0
   \<and> (\<forall>r h. fst (INA226_ReadRegister (bus_answering 0 0) (Config ready) r h) = OK)
   \<and> fst (INA226_MeasureAll (bus_answering 0 0) ready []) = 0
   \<and> (\<forall>r h. fst (INA226_ReadRegister (bus_answering 0 1) (Config ready) r h) = OK)
   \<and> fst (INA226_MeasureAll (bus_answering 0 1) ready []) = 16363"
  by (simp add: INA226_MeasureAll_def getter_defs access_defs register_defs constant_defs
      example_defs Let_def)

subsection \<open>The guard on the initialised flag\<close>




subsection \<open>Calibration value and scale factors\<close>

text \<open>
  Rounding that satisfies \<open>double_rounding\<close> keeps a positive value within the
  fraction \<^verbatim>\<open>2^-53\<close> of itself; with it the current step for 20 A is 611 and the
  calibration quotient for a shunt next to 0.01 Ohm lies between 852 and 853, whatever the
  rounding does in detail.
\<close>

lemma rnd_close:
  assumes "double_rounding rnd" and "1 / 2 ^ 64 \<le> x" and "x \<le> 2 ^ 64"
  shows "x * (1 - 1 / 2 ^ 53) \<le> rnd x \<and> rnd x \<le> x * (1 + 1 / 2 ^ 53)"
proof -
  have "(0::real) < 1 / 2 ^ 64"
    by simp
  then have p: "0 < x"
    using assms(2) by linarith
  then have "\<bar>x\<bar> = x"
    by simp
  with assms have "\<bar>rnd x - x\<bar> \<le> x / 2 ^ 53"
    unfolding double_rounding_def by metis
  then have "rnd x - x \<le> x / 2 ^ 53" and "x - rnd x \<le> x / 2 ^ 53"
    by linarith+
  then show ?thesis
    by (simp add: algebra_simps)
qed

lemma theCurrentLSB_20:
  assumes "double_rounding rnd"
  shows "theCurrentLSB rnd 20 = 611"
proof -
  define p where "p = rnd (20 * 1000000)"
  define q where "q = rnd (p / 32767)"
  have p: "19999999 \<le> p \<and> p \<le> 20000001"
    using rnd_close [OF assms, of "20 * 1000000"] unfolding p_def by simp
  then have x: "6103 / 10 \<le> p / 32767 \<and> p / 32767 \<le> 6104 / 10"
    by (simp add: field_simps)
  then have "1 / 2 ^ 64 \<le> p / 32767" and "p / 32767 \<le> 2 ^ 64"
    by simp_all
  from rnd_close [OF assms this] x have q: "610 < q \<and> q \<le> 611"
    unfolding q_def by (simp add: algebra_simps)
  then have "\<lceil>q\<rceil> = 611"
    by (simp add: ceiling_eq_iff)
  then show ?thesis
    by (simp add: theCurrentLSB_def p_def q_def)
qed

lemma theCal_20:
  assumes "double_rounding rnd" and "\<bar>aShunt - 1 / 100\<bar> \<le> (1 / 100) / 2 ^ 53"
  shows "\<exists>c. theCal rnd aShunt 20 = Some c \<and> 852 \<le> c \<and> c < 853"
proof -
  define r where "r = rnd (611 / 1000000)"
  define x where "x = aShunt * r"
  define d where "d = rnd x"
  define k where "k = rnd (521 / 100000)"
  define y where "y = k / d"
  define c where "c = rnd y"
  have "aShunt - 1 / 100 \<le> (1 / 100) / 2 ^ 53" and "1 / 100 - aShunt \<le> (1 / 100) / 2 ^ 53"
    using assms(2) by linarith+
  then have a: "99999 / 10000000 \<le> aShunt \<and> aShunt \<le> 100001 / 10000000"
    by simp
  have r: "61099 / 100000000 \<le> r \<and> r \<le> 61101 / 100000000"
    using rnd_close [OF assms(1), of "611 / 1000000"] unfolding r_def by simp
  have lo: "(99999 / 10000000) * (61099 / 100000000) \<le> x"
    unfolding x_def using a r by (intro mult_mono) auto
  have hi: "x \<le> (100001 / 10000000) * (61101 / 100000000)"
    unfolding x_def using a r by (intro mult_mono) auto
  have x: "61098 / 10000000000 \<le> x \<and> x \<le> 61102 / 10000000000"
    using lo hi by simp
  then have "1 / 2 ^ 64 \<le> x" and "x \<le> 2 ^ 64"
    by simp_all
  from rnd_close [OF assms(1) this] x
  have d: "61097 / 10000000000 \<le> d \<and> d \<le> 61103 / 10000000000"
    unfolding d_def by (simp add: algebra_simps)
  have k: "52099 / 10000000 \<le> k \<and> k \<le> 52101 / 10000000"
    using rnd_close [OF assms(1), of "521 / 100000"] unfolding k_def by simp
  have dpos: "0 < d"
    using d by simp
  have qlo: "(52099 / 10000000) / (61103 / 10000000000) \<le> y"
    unfolding y_def using k d by (intro frac_le) auto
  have qhi: "y \<le> (52101 / 10000000) / (61097 / 10000000000)"
    unfolding y_def using k d by (intro frac_le) auto
  have y: "8526 / 10 \<le> y \<and> y \<le> 8528 / 10"
    using qlo qhi by simp
  then have "1 / 2 ^ 64 \<le> y" and "y \<le> 2 ^ 64"
    by simp_all
  from rnd_close [OF assms(1) this] y
  have c: "852 \<le> c \<and> c < 853"
    unfolding c_def by (simp add: algebra_simps)
  have "theCal rnd aShunt 20 = Some c"
    using dpos
    by (simp add: theCal_def theCurrentLSB_20 [OF assms(1)] Let_def r_def x_def d_def k_def
        y_def c_def)
  with c show ?thesis
    by simp
qed

text \<open>
  The run of \<^verbatim>\<open>INA226_setupCalibration\<close>: it stores the converted current step, the
  converted calibration quotient and 25 times the stored current step, writes the stored
  calibration value to the calibration register and returns the status of that write.
\<close>

lemma WriteRegister_address:
  assumes "mI2C_Address c = mI2C_Address c'"
  shows "INA226_WriteRegister T c r w h = INA226_WriteRegister T c' r w h"
  using assms by (simp add: INA226_WriteRegister_def Let_def)

lemma sint_word_of_int_32:
  assumes "- (2 ^ 31) \<le> k" and "k < 2 ^ 31"
  shows "sint (word_of_int k :: 32 word) = k"
  using assms by (simp add: sint_sbintrunc' signed_take_bit_int_eq_self)

lemma double_to_int32_of_int:
  assumes "- (2 ^ 31) \<le> k" and "k < 2 ^ 31"
  shows "double_to_int32 cv (of_int k) = word_of_int k"
  using assms by (simp add: double_to_int32_def double_trunc_def)

lemma setupCalibration_run:
  "INA226_setupCalibration rnd cv T this aShunt aMax h
     = (fst (INA226_WriteRegister T this INA226_CALIBRATION
               (double_to_uint16 cv (theCal rnd aShunt aMax)) h),
        this\<lparr>mCurrentMicroAmpsPerBit := double_to_int32 cv (theCurrentLSB rnd aMax),
             mCalibrationValue := double_to_uint16 cv (theCal rnd aShunt aMax),
             mPowerMicroWattPerBit :=
               double_to_int32 cv (theCurrentLSB rnd aMax) * INA226_POWER_LSB_FACTOR\<rparr>,
        h @ [TransmitCall (mI2C_Address this)
               [INA226_CALIBRATION,
                ucast (drop_bit 8 (double_to_uint16 cv (theCal rnd aShunt aMax)) AND 0xFF),
                ucast (double_to_uint16 cv (theCal rnd aShunt aMax) AND 0xFF)]])"
proof -
  let ?i = "double_to_int32 cv (theCurrentLSB rnd aMax)"
  let ?c = "double_to_uint16 cv (theCal rnd aShunt aMax)"
  let ?this3 = "this\<lparr>mCurrentMicroAmpsPerBit := ?i, mCalibrationValue := ?c,
                      mPowerMicroWattPerBit := ?i * INA226_POWER_LSB_FACTOR\<rparr>"
  have w: "INA226_WriteRegister T ?this3 INA226_CALIBRATION ?c h
             = INA226_WriteRegister T this INA226_CALIBRATION ?c h"
    by (rule WriteRegister_address) simp
  show ?thesis
    by (simp add: INA226_setupCalibration_def Let_def WriteRegister_case w)
qed

text \<open>
  Claim C3 says that for a shunt of 0.01 Ohm and a maximal current of 20 A the stored
  calibration value is \<open>\<lfloor>0.00512 / (0.01 * 0.000611)\<rfloor>\<close>, which is 837. The function
  divides 0.00521, not 0.00512: for every rounding of the platform that satisfies
  \<open>double_rounding\<close>, and every shunt value within that rounding of 0.01, it stores 852
  and writes 852 (the bytes 0x03, 0x54) to the calibration register.
\<close>

theorem calibration_value_from_0_00521:
  assumes "double_rounding rnd" and "\<bar>aShunt - 1 / 100\<bar> \<le> (1 / 100) / 2 ^ 53"
  shows "INA226_setupCalibration rnd cv T this aShunt 20 h
           = (fst (INA226_WriteRegister T this INA226_CALIBRATION 852 h),
              this\<lparr>mCurrentMicroAmpsPerBit := 611, mCalibrationValue := 852,
                   mPowerMicroWattPerBit := 15275\<rparr>,
              h @ [TransmitCall (mI2C_Address this) [INA226_CALIBRATION, 0x03, 0x54]])
       \<and> \<lfloor>(521 / 100000 :: real) / (1 / 100 * (611 / 1000000))\<rfloor> = 852
       \<and> \<lfloor>(512 / 100000 :: real) / (1 / 100 * (611 / 1000000))\<rfloor> = 837"
proof -
  have i: "double_to_int32 cv (theCurrentLSB rnd 20) = 611"
    unfolding theCurrentLSB_20 [OF assms(1)]
    using double_to_int32_of_int [of 611 cv] by simp
  from theCal_20 [OF assms] obtain c
    where c: "theCal rnd aShunt 20 = Some c" "852 \<le> c" "c < 853"
    by blast
  then have "\<lfloor>c\<rfloor> = 852"
    by (simp add: floor_eq_iff)
  then have u: "double_to_uint16 cv (theCal rnd aShunt 20) = 852"
    using c by (simp add: double_to_uint16_def double_trunc_def)
  have "INA226_setupCalibration rnd cv T this aShunt 20 h
           = (fst (INA226_WriteRegister T this INA226_CALIBRATION 852 h),
              this\<lparr>mCurrentMicroAmpsPerBit := 611, mCalibrationValue := 852,
                   mPowerMicroWattPerBit := 15275\<rparr>,
              h @ [TransmitCall (mI2C_Address this) [INA226_CALIBRATION, 0x03, 0x54]])"
    unfolding setupCalibration_run i u
    by (simp add: INA226_POWER_LSB_FACTOR_def)
  then show ?thesis
    by simp
qed

theorem calibration_value_from_0_00521_witness:
  "double_rounding id \<and> \<bar>(1 / 100 :: real) - 1 / 100\<bar> \<le> (1 / 100) / 2 ^ 53
   \<and> INA226_setupCalibration id saturating chip (Config fresh) (1 / 100) 20 []
       = (OK, (Config fresh)\<lparr>mCurrentMicroAmpsPerBit := 611, mCalibrationValue := 852,
                              mPowerMicroWattPerBit := 15275\<rparr>,
          [TransmitCall 0 [0x05, 0x03, 0x54]])"
proof -
  have r: "double_rounding id"
    by (simp add: double_rounding_def)
  have s: "\<bar>(1 / 100 :: real) - 1 / 100\<bar> \<le> (1 / 100) / 2 ^ 53"
    by simp
  have ok: "fst (INA226_WriteRegister chip (Config fresh) INA226_CALIBRATION 852 []) = OK"
    by (simp add: INA226_WriteRegister_def chip_def Let_def)
  from calibration_value_from_0_00521 [OF r s, of saturating chip "Config fresh" "[]"] ok r s
  show ?thesis
    by (simp add: fresh_def INA226_CALIBRATION_def)
qed

text \<open>
  Claim C4 says that for every positive maximal current the function stores the current
  step \<open>\<lceil>max * 1000000 / 32767\<rceil>\<close> and 25 times that as the power step. The two fields
  are 32-bit signed integers: for 3000000 A, in exact arithmetic, the current step
  91555529 is stored, and the power step wraps to -2006079071, which is not
  25 * 91555529.
\<close>

theorem scale_factors_beyond_int32:
  "INA226_setupCalibration id saturating chip (Config fresh) (1 / 100) 3000000 []
     = (OK, (Config fresh)\<lparr>mCurrentMicroAmpsPerBit := 91555529, mCalibrationValue := 0,
                            mPowerMicroWattPerBit := 2288888225\<rparr>,
        [TransmitCall 0 [0x05, 0x00, 0x00]])
   \<and> \<lceil>(3000000 :: real) * 1000000 / 32767\<rceil> = 91555529
   \<and> sint (2288888225 :: 32 word) = - 2006079071
   \<and> sint (2288888225 :: 32 word) \<noteq> 25 * 91555529"
  by (simp add: calibration_defs access_defs register_defs constant_defs example_defs Let_def)

text \<open>
  Claim C4 as amended. Let \<open>L\<close> be \<open>\<lceil>max * 1000000 / 32767\<rceil>\<close> with the product and the
  quotient rounded as the platform rounds them. Whenever \<open>25 * L\<close> is a 32-bit signed
  integer, \<^verbatim>\<open>INA226_setupCalibration\<close> stores \<open>L\<close> as \<open>mCurrentMicroAmpsPerBit\<close> and
  \<open>25 * L\<close> as \<open>mPowerMicroWattPerBit\<close>, for every shunt resistance and whatever the
  calibration quotient converts to; it writes the stored calibration value to the
  calibration register and returns the status of that write. For 20 A and a rounding that
  satisfies \<open>double_rounding\<close>, the two scale factors are 611 and 15275.
\<close>

theorem setupCalibration_scale_factors:
  assumes "- (2 ^ 31) \<le> 25 * \<lceil>rnd (rnd (aMax * 1000000) / 32767)\<rceil>"
      and "25 * \<lceil>rnd (rnd (aMax * 1000000) / 32767)\<rceil> < 2 ^ 31"
  shows "\<exists>this'. INA226_setupCalibration rnd cv T this aShunt aMax h
                    = (fst (INA226_WriteRegister T this INA226_CALIBRATION
                              (mCalibrationValue this') h),
                       this',
                       h @ [TransmitCall (mI2C_Address this)
                              [INA226_CALIBRATION,
                               ucast (drop_bit 8 (mCalibrationValue this') AND 0xFF),
                               ucast (mCalibrationValue this' AND 0xFF)]])
                \<and> sint (mCurrentMicroAmpsPerBit this') = \<lceil>rnd (rnd (aMax * 1000000) / 32767)\<rceil>
                \<and> sint (mPowerMicroWattPerBit this') = 25 * sint (mCurrentMicroAmpsPerBit this')
                \<and> (double_rounding rnd \<and> aMax = 20
                     \<longrightarrow> sint (mCurrentMicroAmpsPerBit this') = 611
                         \<and> sint (mPowerMicroWattPerBit this') = 15275)"
proof -
  let ?L = "\<lceil>rnd (rnd (aMax * 1000000) / 32767)\<rceil>"
  let ?c = "double_to_uint16 cv (theCal rnd aShunt aMax)"
  let ?this1 = "this\<lparr>mCurrentMicroAmpsPerBit := word_of_int ?L, mCalibrationValue := ?c,
                      mPowerMicroWattPerBit := word_of_int ?L * INA226_POWER_LSB_FACTOR\<rparr>"
  have lo: "- (2 ^ 31) \<le> ?L" and hi: "?L < 2 ^ 31"
    using assms(1,2) by linarith+
  have i: "double_to_int32 cv (theCurrentLSB rnd aMax) = word_of_int ?L"
    unfolding theCurrentLSB_def by (rule double_to_int32_of_int [OF lo hi])
  have cur: "sint (word_of_int ?L :: 32 word) = ?L"
    by (rule sint_word_of_int_32 [OF lo hi])
  have "word_of_int ?L * INA226_POWER_LSB_FACTOR = (word_of_int (25 * ?L) :: 32 word)"
    by (simp add: INA226_POWER_LSB_FACTOR_def)
  then have pow: "sint (word_of_int ?L * INA226_POWER_LSB_FACTOR :: 32 word) = 25 * ?L"
    using sint_word_of_int_32 [OF assms(1,2)] by simp
  have twenty: "double_rounding rnd \<and> aMax = 20 \<longrightarrow> ?L = 611"
    using theCurrentLSB_20 [of rnd] by (auto simp: theCurrentLSB_def)
  show ?thesis
    apply (rule exI [where x = ?this1])
    apply (simp only: setupCalibration_run i)
    using cur pow twenty apply (simp add: INA226_POWER_LSB_FACTOR_def)
    done
qed

theorem setupCalibration_scale_factors_witness:
  "- (2 ^ 31) \<le> 25 * \<lceil>id (id ((20 :: real) * 1000000) / 32767)\<rceil>
   \<and> 25 * \<lceil>id (id ((20 :: real) * 1000000) / 32767)\<rceil> < 2 ^ 31
   \<and> \<lceil>(20 :: real) * 1000000 / 32767\<rceil> = 611
   \<and> (\<exists>this'. INA226_setupCalibration id saturating chip (Config fresh) (1 / 100) 20 []
                 = (OK, this', [TransmitCall 0 [0x05, 0x03, 0x54]])
             \<and> sint (mCurrentMicroAmpsPerBit this') = 611
             \<and> sint (mPowerMicroWattPerBit this') = 15275)
   \<and> - (2 ^ 31) \<le> 25 * \<lceil>id (id ((1 / 5 :: real) * 1000000) / 32767)\<rceil>
   \<and> 25 * \<lceil>id (id ((1 / 5 :: real) * 1000000) / 32767)\<rceil> < 2 ^ 31
   \<and> \<lceil>(1 / 5 :: real) * 1000000 / 32767\<rceil> = 7
   \<and> \<lfloor>(521 / 100000 :: real) / (1 / 100 * (7 / 1000000))\<rfloor> = 74428
   \<and> (\<exists>this'. INA226_setupCalibration id saturating chip (Config fresh) (1 / 100) (1 / 5) []
                 = (OK, this', [TransmitCall 0 [0x05, 0xFF, 0xFF]])
             \<and> sint (mCurrentMicroAmpsPerBit this') = 7
             \<and> sint (mPowerMicroWattPerBit this') = 175)"
proof -
  have lo: "- (2 ^ 31) \<le> 25 * \<lceil>id (id ((20 :: real) * 1000000) / 32767)\<rceil>"
    by simp
  have hi: "25 * \<lceil>id (id ((20 :: real) * 1000000) / 32767)\<rceil> < 2 ^ 31"
    by simp
  have L: "\<lceil>(20 :: real) * 1000000 / 32767\<rceil> = 611"
    by simp
  have lo': "- (2 ^ 31) \<le> 25 * \<lceil>id (id ((1 / 5 :: real) * 1000000) / 32767)\<rceil>"
    by simp
  have hi': "25 * \<lceil>id (id ((1 / 5 :: real) * 1000000) / 32767)\<rceil> < 2 ^ 31"
    by simp
  have L': "\<lceil>(1 / 5 :: real) * 1000000 / 32767\<rceil> = 7"
    by simp
  have q: "\<lfloor>(521 / 100000 :: real) / (1 / 100 * (7 / 1000000))\<rfloor> = 74428"
    by simp
  have c: "double_to_uint16 saturating (theCal id (1 / 100) 20) = 852"
    by (simp add: calibration_defs Let_def)
  have c': "double_to_uint16 saturating (theCal id (1 / 100) (1 / 5)) = 0xFFFF"
    by (simp add: calibration_defs saturating_def Let_def)
  have r: "double_rounding id"
    by (simp add: double_rounding_def)
  have ok: "fst (INA226_WriteRegister chip (Config fresh) INA226_CALIBRATION w []) = OK" for w
    by (simp add: INA226_WriteRegister_def chip_def Let_def)
  have run: "INA226_setupCalibration id saturating chip (Config fresh) (1 / 100) 20 []
               = (OK, this', log) \<Longrightarrow> log = [TransmitCall 0 [0x05, 0x03, 0x54]]" for this' log
    by (simp add: setupCalibration_run c fresh_def INA226_CALIBRATION_def)
  have run': "INA226_setupCalibration id saturating chip (Config fresh) (1 / 100) (1 / 5) []
               = (OK, this', log) \<Longrightarrow> log = [TransmitCall 0 [0x05, 0xFF, 0xFF]]" for this' log
    by (simp add: setupCalibration_run c' fresh_def INA226_CALIBRATION_def)
  from setupCalibration_scale_factors
         [where rnd = id and aMax = 20 and cv = saturating and T = chip
            and this = "Config fresh" and aShunt = "1 / 100" and h = "[]", OF lo hi] r
  have A: "\<exists>this'. INA226_setupCalibration id saturating chip (Config fresh) (1 / 100) 20 []
                 = (OK, this', [TransmitCall 0 [0x05, 0x03, 0x54]])
             \<and> sint (mCurrentMicroAmpsPerBit this') = 611
             \<and> sint (mPowerMicroWattPerBit this') = 15275"
    using run by (auto simp: ok)
  from setupCalibration_scale_factors
         [where rnd = id and aMax = "1 / 5" and cv = saturating and T = chip
            and this = "Config fresh" and aShunt = "1 / 100" and h = "[]", OF lo' hi']
  have B: "\<exists>this'. INA226_setupCalibration id saturating chip (Config fresh) (1 / 100) (1 / 5) []
                 = (OK, this', [TransmitCall 0 [0x05, 0xFF, 0xFF]])
             \<and> sint (mCurrentMicroAmpsPerBit this') = 7
             \<and> sint (mPowerMicroWattPerBit this') = 175"
    using run' by (auto simp: ok)
  from A B show ?thesis
    using lo hi L lo' hi' L' q by blast
qed

subsection \<open>Shunt voltage\<close>

text \<open>
  Claim C5: whatever signed 16-bit count \<open>raw\<close> the register read leaves in the local
  variable (the count received, or 0 when the read failed),
  \<^verbatim>\<open>INA226_GetShuntVoltage_uV\<close> returns \<open>(raw >> 1) + (raw << 1)\<close> with an arithmetic
  right shift, which is \<open>raw * 2 + \<lfloor>raw / 2\<rfloor>\<close>; the 32-bit sum does not wrap. The
  count -100 gives -250 microvolts. The example after the theorem runs it for every
  count: a bus that answers with the two bytes of \<open>raw\<close> delivers \<open>raw\<close>.
\<close>

theorem GetShuntVoltage_uV_conversion:
  assumes "INA226_ReadRegister T (Config this) INA226_SHUNT_VOLTAGE h = (s, raw, h')"
  shows "snd (INA226_GetShuntVoltage_uV T this h) = h'
       \<and> sint (fst (INA226_GetShuntVoltage_uV T this h))
           = drop_bit 1 (sint raw) + push_bit 1 (sint raw)
       \<and> sint (fst (INA226_GetShuntVoltage_uV T this h)) = 2 * sint raw + sint raw div 2"
proof -
  have g: "INA226_GetShuntVoltage_uV T this h
             = (signed_drop_bit 1 (scast raw) + push_bit 1 (scast raw), h')"
    unfolding INA226_GetShuntVoltage_uV_def assms prod.case ..
  have i: "drop_bit 1 (sint raw) + push_bit 1 (sint raw) = 2 * sint raw + sint raw div 2"
    by (simp add: drop_bit_eq_div push_bit_eq_mult)
  show ?thesis unfolding g fst_conv snd_conv shunt_arith i by simp
qed

theorem GetShuntVoltage_uV_conversion_witness:
  "(\<forall>raw :: 16 word.
      INA226_ReadRegister (bus_answering (ucast (drop_bit 8 raw)) (ucast raw)) (Config ready)
          INA226_SHUNT_VOLTAGE []
        = (OK, raw, [TransmitCall 0x40 [0x01], ReceiveCall 0x40 2])
      \<and> sint (fst (INA226_GetShuntVoltage_uV (bus_answering (ucast (drop_bit 8 raw)) (ucast raw))
                     ready []))
          = 2 * sint raw + sint raw div 2)
   \<and> INA226_ReadRegister (bus_answering 0xFF 0x9C) (Config ready) INA226_SHUNT_VOLTAGE []
       = (OK, - 100, [TransmitCall 0x40 [0x01], ReceiveCall 0x40 2])
   \<and> sint (fst (INA226_GetShuntVoltage_uV (bus_answering 0xFF 0x9C) ready [])) = - 250"
proof -
  have a: "mI2C_Address (Config ready) = 0x40"
    by (simp add: ready_def)
  have every: "INA226_ReadRegister (bus_answering (ucast (drop_bit 8 raw)) (ucast raw))
          (Config ready) INA226_SHUNT_VOLTAGE []
        = (OK, raw, [TransmitCall 0x40 [0x01], ReceiveCall 0x40 2])" for raw :: "16 word"
    using every_count_can_be_read [of raw "Config ready" INA226_SHUNT_VOLTAGE "[]"]
    by (simp add: a INA226_SHUNT_VOLTAGE_def)
  have r: "INA226_ReadRegister (bus_answering 0xFF 0x9C) (Config ready) INA226_SHUNT_VOLTAGE []
     = (OK, - 100, [TransmitCall 0x40 [0x01], ReceiveCall 0x40 2])"
    by (simp add: access_defs register_defs example_defs Let_def)
  have "sint (fst (INA226_GetShuntVoltage_uV (bus_answering (ucast (drop_bit 8 raw)) (ucast raw))
                     ready []))
          = 2 * sint raw + sint raw div 2" for raw :: "16 word"
    using GetShuntVoltage_uV_conversion [OF every [of raw]] by simp
  with GetShuntVoltage_uV_conversion [OF r] r every show ?thesis
    by simp
qed

subsection \<open>An alert trigger that the switch does not know\<close>

text \<open>
  Claim C6 says that \<^verbatim>\<open>INA226_ConfigureAlertPinTrigger\<close> with an unrecognised trigger
  returns \<open>BAD_PARAMETER\<close> without any bus call. The function reads the mask/enable
  register before it looks at the trigger: on the simulated chip, with the trigger value
  0x1234 that is none of the seven enumerators, the log holds the transmits and
  receives of that read when \<open>BAD_PARAMETER\<close> comes back.
\<close>

theorem unrecognised_trigger_reads_first:
  "mInitialized (Config ready)
   \<and> 0x1234 \<notin> {PowerOverLimit chip_enumerators, ClearTriggers chip_enumerators,
                 ConversionReady chip_enumerators, ShuntVoltageOverLimit chip_enumerators,
                 ShuntVoltageUnderLimit chip_enumerators, BusVoltageOverLimit chip_enumerators,
                 BusVoltageUnderLimit chip_enumerators}
   \<and> INA226_ConfigureAlertPinTrigger chip_enumerators chip (Config ready) 0x1234 0 False []
       = Some (BAD_PARAMETER, Config ready,
           [TransmitCall 0x40 [0x06], ReceiveCall 0x40 2,
            TransmitCall 0x40 [0x06], ReceiveCall 0x40 2])"
  by (simp add: INA226_ConfigureAlertPinTrigger_def theAlertValue_of_def access_defs
      register_defs constant_defs example_defs Let_def)

text \<open>
  Claim C6 as amended: on an initialised device, a call with a trigger that is none of
  the seven enumerators of the switch writes no register. It leaves the device data
  unchanged, every bus call it makes belongs to a read of the mask/enable register (the
  transmit of that register's address, or the receive of two bytes), and on a transport
  that does not fail it returns \<open>BAD_PARAMETER\<close>.
\<close>

theorem unrecognised_trigger_writes_nothing:
  assumes "mInitialized this"
      and "a \<notin> {PowerOverLimit H, ClearTriggers H, ConversionReady H, ShuntVoltageOverLimit H,
                 ShuntVoltageUnderLimit H, BusVoltageOverLimit H, BusVoltageUnderLimit H}"
  shows "\<exists>s ext. INA226_ConfigureAlertPinTrigger H T this a v l h = Some (s, this, h @ ext)
          \<and> set ext \<subseteq> {TransmitCall (mI2C_Address this) [INA226_MASK_ENABLE],
                          ReceiveCall (mI2C_Address this) 2}
          \<and> ((\<forall>h bs. Transmit T h (mI2C_Address this) bs = 0)
               \<and> (\<forall>h n. fst (Receive T h (mI2C_Address this) n) = 0) \<longrightarrow> s = BAD_PARAMETER)"
proof -
  obtain s1 v1 h1 where r1: "INA226_ReadRegister T this INA226_MASK_ENABLE h = (s1, v1, h1)"
    by (metis prod_cases3)
  obtain s2 v2 h2 where r2: "INA226_ReadRegister T this INA226_MASK_ENABLE h1 = (s2, v2, h2)"
    by (metis prod_cases3)
  have alert: "theAlertValue_of H this a v = Some (Inl BAD_PARAMETER)"
    using assms(2) by (simp add: theAlertValue_of_def)
  have res: "INA226_ConfigureAlertPinTrigger H T this a v l h
               = Some (if s2 \<noteq> OK then s1 else BAD_PARAMETER, this, h2)"
    using assms(1)
    by (simp add: INA226_ConfigureAlertPinTrigger_def CALL_FN_read_local [OF r1 r2] alert Let_def)
  from ReadRegister_log [OF r1] ReadRegister_log [OF r2]
  obtain ext where ext: "h2 = h @ ext"
    "set ext \<subseteq> {TransmitCall (mI2C_Address this) [INA226_MASK_ENABLE],
                  ReceiveCall (mI2C_Address this) 2}"
    by auto
  have ok: "(\<forall>h bs. Transmit T h (mI2C_Address this) bs = 0)
               \<and> (\<forall>h n. fst (Receive T h (mI2C_Address this) n) = 0) \<longrightarrow> s2 = OK"
    using ReadRegister_never_failing [of T this INA226_MASK_ENABLE h1] r2 by auto
  show ?thesis
    using res ext ok by auto
qed

theorem unrecognised_trigger_writes_nothing_witness:
  "mInitialized (Config ready)
   \<and> 0x1234 \<notin> {PowerOverLimit chip_enumerators, ClearTriggers chip_enumerators,
                 ConversionReady chip_enumerators, ShuntVoltageOverLimit chip_enumerators,
                 ShuntVoltageUnderLimit chip_enumerators, BusVoltageOverLimit chip_enumerators,
                 BusVoltageUnderLimit chip_enumerators}
   \<and> (\<exists>ext. INA226_ConfigureAlertPinTrigger chip_enumerators chip (Config ready) 0x1234 0 False []
               = Some (BAD_PARAMETER, Config ready, ext)
             \<and> set ext \<subseteq> {TransmitCall 0x40 [INA226_MASK_ENABLE], ReceiveCall 0x40 2})"
proof -
  have i: "mInitialized (Config ready)"
    by (simp add: ready_def)
  have n: "0x1234 \<notin> {PowerOverLimit chip_enumerators, ClearTriggers chip_enumerators,
                 ConversionReady chip_enumerators, ShuntVoltageOverLimit chip_enumerators,
                 ShuntVoltageUnderLimit chip_enumerators, BusVoltageOverLimit chip_enumerators,
                 BusVoltageUnderLimit chip_enumerators}"
    by (simp add: chip_enumerators_def)
  have t: "\<forall>h bs. Transmit chip h (mI2C_Address (Config ready)) bs = 0"
    by (simp add: chip_def)
  have r: "\<forall>h n. fst (Receive chip h (mI2C_Address (Config ready)) n) = 0"
    by (simp add: chip_def split: prod.splits)
  have a: "mI2C_Address (Config ready) = 0x40"
    by (simp add: ready_def)
  from unrecognised_trigger_writes_nothing [OF i n, where T = chip and v = 0 and l = False and h = "[]"]
    t r
  have "\<exists>ext. INA226_ConfigureAlertPinTrigger chip_enumerators chip (Config ready) 0x1234 0 False []
               = Some (BAD_PARAMETER, Config ready, ext)
             \<and> set ext \<subseteq> {TransmitCall 0x40 [INA226_MASK_ENABLE], ReceiveCall 0x40 2}"
    unfolding a by auto
  then show ?thesis using i n by blast
qed

subsection \<open>Averaging and conversion time\<close>

text \<open>
  What the two functions do on an initialised device with an index from 0 to 7, in terms
  of the two register reads that \<^verbatim>\<open>CALL_FN\<close> makes: the second read decides whether the
  register is written, and its value \<open>v\<close> is the one that is merged and written back.
\<close>

lemma ConfigureNumSampleAveraging_run:
  assumes "mInitialized this" and "0 \<le> i" and "i \<le> 7"
      and "INA226_ReadRegister T this INA226_CONFIG h = (s1, v1, h1)"
      and "INA226_ReadRegister T this INA226_CONFIG h1 = (s2, v, h2)"
  shows "INA226_ConfigureNumSampleAveraging T this i h =
           (if s2 \<noteq> OK then (s1, this\<lparr>mConfigRegister := v\<rparr>, h2)
            else (fst (INA226_WriteRegister T this INA226_CONFIG
                        ((v AND NOT cSampleAvgMask)
                           OR word_of_int (push_bit cSampleAvgIdxShift i)) h2),
                  this\<lparr>mConfigRegister :=
                         (v AND NOT cSampleAvgMask)
                           OR word_of_int (push_bit cSampleAvgIdxShift i)\<rparr>,
                  snd (INA226_WriteRegister T this INA226_CONFIG
                        ((v AND NOT cSampleAvgMask)
                           OR word_of_int (push_bit cSampleAvgIdxShift i)) h2)))"
  using assms(1-3)
  by (simp add: INA226_ConfigureNumSampleAveraging_def cMaxSampleAvgTblIdx_def
      CALL_FN_read_mConfigRegister [OF assms(4,5)] Let_def split: prod.splits)

lemma ConfigureVoltageConversionTime_run:
  assumes "mInitialized this" and "0 \<le> i" and "i \<le> 7"
      and "INA226_ReadRegister T this INA226_CONFIG h = (s1, v1, h1)"
      and "INA226_ReadRegister T this INA226_CONFIG h1 = (s2, v, h2)"
  shows "INA226_ConfigureVoltageConversionTime T this i h =
           (if s2 \<noteq> OK then (s1, this\<lparr>mConfigRegister := v\<rparr>, h2)
            else (fst (INA226_WriteRegister T this INA226_CONFIG
                        ((v AND NOT (cBusVoltageConvTimeMask OR cShuntVoltageConvTimeMask))
                           OR (push_bit cBusVoltConvTimeIdxShift (word_of_int i)
                               OR push_bit cShuntVoltConvTimeIdxShift (word_of_int i))) h2),
                  this\<lparr>mConfigRegister :=
                         (v AND NOT (cBusVoltageConvTimeMask OR cShuntVoltageConvTimeMask))
                           OR (push_bit cBusVoltConvTimeIdxShift (word_of_int i)
                               OR push_bit cShuntVoltConvTimeIdxShift (word_of_int i))\<rparr>,
                  snd (INA226_WriteRegister T this INA226_CONFIG
                        ((v AND NOT (cBusVoltageConvTimeMask OR cShuntVoltageConvTimeMask))
                           OR (push_bit cBusVoltConvTimeIdxShift (word_of_int i)
                               OR push_bit cShuntVoltConvTimeIdxShift (word_of_int i))) h2)))"
  using assms(1-3)
  by (simp add: INA226_ConfigureVoltageConversionTime_def cMaxConvTimeTblIdx_def
      CALL_FN_read_mConfigRegister [OF assms(4,5)] Let_def split: prod.splits)

text \<open>
  Claim C7: on an initialised device and for an index from 0 to 7, let \<open>v\<close> be the value
  of the configuration register that the last read before the write delivered. When that
  read succeeded, \<^verbatim>\<open>INA226_ConfigureNumSampleAveraging\<close> transmits one write of a value
  \<open>w\<close> to the configuration register and keeps \<open>w\<close> as its copy, where \<open>w\<close> agrees with
  \<open>v\<close> on every bit outside 0x0E00 and carries the index in bits 9 to 11;
  \<^verbatim>\<open>INA226_ConfigureVoltageConversionTime\<close> does the same with a \<open>w\<close> that agrees with \<open>v\<close>
  on every bit outside 0x01C0 | 0x0038 and carries the index in bits 6 to 8 and in
  bits 3 to 5. When that read failed, neither function writes.
\<close>

theorem field_updates_keep_the_other_bits:
  assumes "mInitialized this" and "0 \<le> i" and "i \<le> 7"
      and "INA226_ReadRegister T this INA226_CONFIG h = (s1, v1, h1)"
      and "INA226_ReadRegister T this INA226_CONFIG h1 = (s2, v, h2)"
  shows "(if s2 = OK
          then \<exists>w. INA226_ConfigureNumSampleAveraging T this i h
                      = (fst (INA226_WriteRegister T this INA226_CONFIG w h2),
                         this\<lparr>mConfigRegister := w\<rparr>,
                         h2 @ [TransmitCall (mI2C_Address this)
                                 [INA226_CONFIG, ucast (drop_bit 8 w AND 0xFF), ucast (w AND 0xFF)]])
                  \<and> w AND NOT cSampleAvgMask = v AND NOT cSampleAvgMask
                  \<and> drop_bit 9 (w AND cSampleAvgMask) = word_of_int i
          else INA226_ConfigureNumSampleAveraging T this i h
                 = (s1, this\<lparr>mConfigRegister := v\<rparr>, h2))
       \<and> (if s2 = OK
          then \<exists>w. INA226_ConfigureVoltageConversionTime T this i h
                      = (fst (INA226_WriteRegister T this INA226_CONFIG w h2),
                         this\<lparr>mConfigRegister := w\<rparr>,
                         h2 @ [TransmitCall (mI2C_Address this)
                                 [INA226_CONFIG, ucast (drop_bit 8 w AND 0xFF), ucast (w AND 0xFF)]])
                  \<and> w AND NOT (cBusVoltageConvTimeMask OR cShuntVoltageConvTimeMask)
                      = v AND NOT (cBusVoltageConvTimeMask OR cShuntVoltageConvTimeMask)
                  \<and> drop_bit 6 (w AND cBusVoltageConvTimeMask) = word_of_int i
                  \<and> drop_bit 3 (w AND cShuntVoltageConvTimeMask) = word_of_int i
          else INA226_ConfigureVoltageConversionTime T this i h
                 = (s1, this\<lparr>mConfigRegister := v\<rparr>, h2))"
proof (cases "s2 = OK")
  case False
  then show ?thesis
    by (simp add: ConfigureNumSampleAveraging_run [OF assms]
        ConfigureVoltageConversionTime_run [OF assms])
next
  case True
  let ?ka = "word_of_int (push_bit cSampleAvgIdxShift i) :: 16 word"
  let ?kc = "push_bit cBusVoltConvTimeIdxShift (word_of_int i)
               OR push_bit cShuntVoltConvTimeIdxShift (word_of_int i) :: 16 word"
  let ?mc = "cBusVoltageConvTimeMask OR cShuntVoltageConvTimeMask"
  let ?wa = "(v AND NOT cSampleAvgMask) OR ?ka"
  let ?wc = "(v AND NOT ?mc) OR ?kc"
  have a1: "?wa AND NOT cSampleAvgMask = v AND NOT cSampleAvgMask"
    by (rule field_update_frame(1) [OF averaging_field [OF assms(2,3)]])
  have a2: "?wa AND cSampleAvgMask = ?ka"
    by (rule field_update_frame(2) [OF averaging_field [OF assms(2,3)]])
  have a3: "drop_bit 9 ?ka = (word_of_int i :: 16 word)"
    using index_cases [OF assms(2,3)] by (auto simp: constant_defs)
  have c1: "?wc AND NOT ?mc = v AND NOT ?mc"
    by (rule field_update_frame(1) [OF conversion_field [OF assms(2,3)]])
  have c2: "?wc AND ?mc = ?kc"
    by (rule field_update_frame(2) [OF conversion_field [OF assms(2,3)]])
  have c3: "?wc AND cBusVoltageConvTimeMask = ?kc AND cBusVoltageConvTimeMask"
  proof -
    have "?wc AND cBusVoltageConvTimeMask = (?wc AND ?mc) AND cBusVoltageConvTimeMask"
      by (simp add: constant_defs and.assoc)
    then show ?thesis by (simp only: c2)
  qed
  have c4: "?wc AND cShuntVoltageConvTimeMask = ?kc AND cShuntVoltageConvTimeMask"
  proof -
    have "?wc AND cShuntVoltageConvTimeMask = (?wc AND ?mc) AND cShuntVoltageConvTimeMask"
      by (simp add: constant_defs and.assoc)
    then show ?thesis by (simp only: c2)
  qed
  have A: "\<exists>w. INA226_ConfigureNumSampleAveraging T this i h
                      = (fst (INA226_WriteRegister T this INA226_CONFIG w h2),
                         this\<lparr>mConfigRegister := w\<rparr>,
                         h2 @ [TransmitCall (mI2C_Address this)
                                 [INA226_CONFIG, ucast (drop_bit 8 w AND 0xFF), ucast (w AND 0xFF)]])
                  \<and> w AND NOT cSampleAvgMask = v AND NOT cSampleAvgMask
                  \<and> drop_bit 9 (w AND cSampleAvgMask) = word_of_int i"
    apply (rule exI [where x = ?wa])
    apply (simp only: ConfigureNumSampleAveraging_run [OF assms] True WriteRegister_log a1 a2 a3)
    apply simp
    done
  have C: "\<exists>w. INA226_ConfigureVoltageConversionTime T this i h
                      = (fst (INA226_WriteRegister T this INA226_CONFIG w h2),
                         this\<lparr>mConfigRegister := w\<rparr>,
                         h2 @ [TransmitCall (mI2C_Address this)
                                 [INA226_CONFIG, ucast (drop_bit 8 w AND 0xFF), ucast (w AND 0xFF)]])
                  \<and> w AND NOT (cBusVoltageConvTimeMask OR cShuntVoltageConvTimeMask)
                      = v AND NOT (cBusVoltageConvTimeMask OR cShuntVoltageConvTimeMask)
                  \<and> drop_bit 6 (w AND cBusVoltageConvTimeMask) = word_of_int i
                  \<and> drop_bit 3 (w AND cShuntVoltageConvTimeMask) = word_of_int i"
    apply (rule exI [where x = ?wc])
    apply (simp only: ConfigureVoltageConversionTime_run [OF assms] True WriteRegister_log c1 c3 c4
        conversion_fields_same_index [OF assms(2,3)])
    apply simp
    done
  from A C True show ?thesis by simp
qed

theorem field_updates_keep_the_other_bits_witness:
  "mInitialized (Config ready) \<and> (0::int) \<le> 3 \<and> (3::int) \<le> 7
   \<and> INA226_ReadRegister chip (Config ready) INA226_CONFIG []
       = (OK, 0x4127, [TransmitCall 0x40 [0x00], ReceiveCall 0x40 2])
   \<and> INA226_ReadRegister chip (Config ready) INA226_CONFIG
         [TransmitCall 0x40 [0x00], ReceiveCall 0x40 2]
       = (OK, 0x4127, [TransmitCall 0x40 [0x00], ReceiveCall 0x40 2,
                       TransmitCall 0x40 [0x00], ReceiveCall 0x40 2])
   \<and> (\<exists>w. snd (INA226_ConfigureNumSampleAveraging chip (Config ready) 3 [])
              = ((Config ready)\<lparr>mConfigRegister := w\<rparr>,
                 [TransmitCall 0x40 [0x00], ReceiveCall 0x40 2,
                  TransmitCall 0x40 [0x00], ReceiveCall 0x40 2,
                  TransmitCall 0x40 [0x00, ucast (drop_bit 8 w AND 0xFF), ucast (w AND 0xFF)]])
          \<and> w AND NOT 0x0E00 = 0x4127 AND NOT 0x0E00
          \<and> drop_bit 9 (w AND 0x0E00) = 3)
   \<and> (\<exists>w. snd (INA226_ConfigureVoltageConversionTime chip (Config ready) 3 [])
              = ((Config ready)\<lparr>mConfigRegister := w\<rparr>,
                 [TransmitCall 0x40 [0x00], ReceiveCall 0x40 2,
                  TransmitCall 0x40 [0x00], ReceiveCall 0x40 2,
                  TransmitCall 0x40 [0x00, ucast (drop_bit 8 w AND 0xFF), ucast (w AND 0xFF)]])
          \<and> w AND NOT (0x01C0 OR 0x0038) = 0x4127 AND NOT (0x01C0 OR 0x0038)
          \<and> drop_bit 6 (w AND 0x01C0) = 3 \<and> drop_bit 3 (w AND 0x0038) = 3)
   \<and> INA226_ConfigureNumSampleAveraging chip (Config ready) 3 []
       = (OK, (Config ready)\<lparr>mConfigRegister := 0x4727\<rparr>,
          [TransmitCall 0x40 [0x00], ReceiveCall 0x40 2,
           TransmitCall 0x40 [0x00], ReceiveCall 0x40 2,
           TransmitCall 0x40 [0x00, 0x47, 0x27]])
   \<and> INA226_ConfigureVoltageConversionTime chip (Config ready) 3 []
       = (OK, (Config ready)\<lparr>mConfigRegister := 0x40DF\<rparr>,
          [TransmitCall 0x40 [0x00], ReceiveCall 0x40 2,
           TransmitCall 0x40 [0x00], ReceiveCall 0x40 2,
           TransmitCall 0x40 [0x00, 0x40, 0xDF]])"
proof -
  have i: "mInitialized (Config ready)"
    by (simp add: ready_def)
  have r1: "INA226_ReadRegister chip (Config ready) INA226_CONFIG []
       = (OK, 0x4127, [TransmitCall 0x40 [0x00], ReceiveCall 0x40 2])"
    by (simp add: access_defs register_defs example_defs Let_def)
  have r2: "INA226_ReadRegister chip (Config ready) INA226_CONFIG
         [TransmitCall 0x40 [0x00], ReceiveCall 0x40 2]
       = (OK, 0x4127, [TransmitCall 0x40 [0x00], ReceiveCall 0x40 2,
                       TransmitCall 0x40 [0x00], ReceiveCall 0x40 2])"
    by (simp add: access_defs register_defs example_defs Let_def)
  have a: "mI2C_Address (Config ready) = 0x40"
    by (simp add: ready_def)
  have n: "(0::int) \<le> 3" "(3::int) \<le> 7"
    by simp_all
  have e1: "INA226_ConfigureNumSampleAveraging chip (Config ready) 3 []
       = (OK, (Config ready)\<lparr>mConfigRegister := 0x4727\<rparr>,
          [TransmitCall 0x40 [0x00], ReceiveCall 0x40 2,
           TransmitCall 0x40 [0x00], ReceiveCall 0x40 2,
           TransmitCall 0x40 [0x00, 0x47, 0x27]])"
    by (simp add: INA226_ConfigureNumSampleAveraging_def access_defs register_defs
        constant_defs example_defs Let_def)
  have e2: "INA226_ConfigureVoltageConversionTime chip (Config ready) 3 []
       = (OK, (Config ready)\<lparr>mConfigRegister := 0x40DF\<rparr>,
          [TransmitCall 0x40 [0x00], ReceiveCall 0x40 2,
           TransmitCall 0x40 [0x00], ReceiveCall 0x40 2,
           TransmitCall 0x40 [0x00, 0x40, 0xDF]])"
    by (simp add: INA226_ConfigureVoltageConversionTime_def access_defs register_defs
        constant_defs example_defs Let_def)
  from field_updates_keep_the_other_bits [OF i n r1 r2]
  have "(\<exists>w. snd (INA226_ConfigureNumSampleAveraging chip (Config ready) 3 [])
              = ((Config ready)\<lparr>mConfigRegister := w\<rparr>,
                 [TransmitCall 0x40 [0x00], ReceiveCall 0x40 2,
                  TransmitCall 0x40 [0x00], ReceiveCall 0x40 2,
                  TransmitCall 0x40 [0x00, ucast (drop_bit 8 w AND 0xFF), ucast (w AND 0xFF)]])
          \<and> w AND NOT 0x0E00 = 0x4127 AND NOT 0x0E00
          \<and> drop_bit 9 (w AND 0x0E00) = 3)
   \<and> (\<exists>w. snd (INA226_ConfigureVoltageConversionTime chip (Config ready) 3 [])
              = ((Config ready)\<lparr>mConfigRegister := w\<rparr>,
                 [TransmitCall 0x40 [0x00], ReceiveCall 0x40 2,
                  TransmitCall 0x40 [0x00], ReceiveCall 0x40 2,
                  TransmitCall 0x40 [0x00, ucast (drop_bit 8 w AND 0xFF), ucast (w AND 0xFF)]])
          \<and> w AND NOT (0x01C0 OR 0x0038) = 0x4127 AND NOT (0x01C0 OR 0x0038)
          \<and> drop_bit 6 (w AND 0x01C0) = 3 \<and> drop_bit 3 (w AND 0x0038) = 3)"
    unfolding a constant_defs register_defs
    by (elim conjE) auto
  then show ?thesis using i r1 r2 e1 e2 by simp
qed

subsection \<open>Hibernate and wake\<close>

lemma Hibernate_keeps:
  assumes "INA226_Hibernate T this h = (s, this1, h1)"
  shows "mInitialized this1 = mInitialized this \<and> mI2C_Address this1 = mI2C_Address this"
proof -
  obtain s1 v1 h1' where r1: "INA226_ReadRegister T this INA226_CONFIG h = (s1, v1, h1')"
    by (metis prod_cases3)
  obtain s2 v2 h2 where r2: "INA226_ReadRegister T this INA226_CONFIG h1' = (s2, v2, h2)"
    by (metis prod_cases3)
  show ?thesis
    using assms
    by (auto simp: INA226_Hibernate_def CALL_FN_read_mConfigRegister [OF r1 r2] Let_def
        split: if_splits prod.splits)
qed

text \<open>
  Claim C8. The enumerators \<^verbatim>\<open>Shutdown\<close> and \<^verbatim>\<open>ShuntAndBusVoltageContinuous\<close> come from
  INA226.h; the theorem takes of them only that the continuous mode is a mode of the
  three-bit field (1 to 7) other than \<^verbatim>\<open>Shutdown\<close>. Let \<^verbatim>\<open>INA226_Hibernate\<close> on an
  initialised device leave the device data \<open>this1\<close>, whose \<open>mConfigRegister\<close> is the
  snapshot. Then \<^verbatim>\<open>INA226_Wakeup\<close> on \<open>this1\<close>, on any transport and from any log,
  transmits one write of a value \<open>w\<close> to the configuration register, and
  \<^item> when the mode bits of the snapshot are \<^verbatim>\<open>Shutdown\<close> or 0, the mode bits of \<open>w\<close> are
    \<^verbatim>\<open>ShuntAndBusVoltageContinuous\<close>;
  \<^item> the mode bits of \<open>w\<close> are never \<^verbatim>\<open>Shutdown\<close> and never 0;
  \<^item> outside the mode bits \<open>w\<close> is the snapshot.
\<close>

theorem wakeup_never_restores_shutdown:
  assumes "mInitialized this"
      and "INA226_Hibernate T this h = (s1, this1, h1)"
      and "0 < ShuntAndBusVoltageContinuous H"
      and "ShuntAndBusVoltageContinuous H \<le> 7"
      and "ShuntAndBusVoltageContinuous H \<noteq> Shutdown H"
  shows "\<exists>w. INA226_Wakeup H T2 this1 h2
               = (fst (INA226_WriteRegister T2 this1 INA226_CONFIG w h2),
                  this1\<lparr>mConfigRegister := w\<rparr>,
                  h2 @ [TransmitCall (mI2C_Address this1)
                          [INA226_CONFIG, ucast (drop_bit 8 w AND 0xFF), ucast (w AND 0xFF)]])
            \<and> (uint (mConfigRegister this1 AND cOperatingModeMask) = Shutdown H
                 \<or> uint (mConfigRegister this1 AND cOperatingModeMask) = 0
               \<longrightarrow> uint (w AND cOperatingModeMask) = ShuntAndBusVoltageContinuous H)
            \<and> uint (w AND cOperatingModeMask) \<noteq> Shutdown H
            \<and> uint (w AND cOperatingModeMask) \<noteq> 0
            \<and> w AND NOT cOperatingModeMask = mConfigRegister this1 AND NOT cOperatingModeMask"
proof -
  let ?m = "mConfigRegister this1 AND cOperatingModeMask"
  let ?k = "word_of_int (ShuntAndBusVoltageContinuous H) :: 16 word"
  from Hibernate_keeps [OF assms(2)] assms(1) have init1: "mInitialized this1"
    by auto
  have k0: "?k AND NOT cOperatingModeMask = 0"
    using index_cases [of "ShuntAndBusVoltageContinuous H"] assms(3,4)
    by (auto simp: cOperatingModeMask_def)
  have ku: "uint ?k = ShuntAndBusVoltageContinuous H"
    using index_cases [of "ShuntAndBusVoltageContinuous H"] assms(3,4) by auto
  show ?thesis
  proof (cases "uint ?m = Shutdown H \<or> uint ?m = 0")
    case True
    let ?w = "(mConfigRegister this1 AND NOT cOperatingModeMask) OR ?k"
    have w: "INA226_Wakeup H T2 this1 h2
               = (fst (INA226_WriteRegister T2 this1 INA226_CONFIG ?w h2),
                  this1\<lparr>mConfigRegister := ?w\<rparr>,
                  h2 @ [TransmitCall (mI2C_Address this1)
                          [INA226_CONFIG, ucast (drop_bit 8 ?w AND 0xFF), ucast (?w AND 0xFF)]])"
      unfolding INA226_Wakeup_def Let_def WriteRegister_case
      using init1 True by simp
    have m: "uint (?w AND cOperatingModeMask) = ShuntAndBusVoltageContinuous H"
      by (simp only: field_update_frame(2) [OF k0] ku)
    have f: "?w AND NOT cOperatingModeMask = mConfigRegister this1 AND NOT cOperatingModeMask"
      by (rule field_update_frame(1) [OF k0])
    show ?thesis
      apply (rule exI [where x = ?w])
      using w m f assms(3,5) apply simp
      done
  next
    case False
    let ?w = "mConfigRegister this1"
    have w: "INA226_Wakeup H T2 this1 h2
               = (fst (INA226_WriteRegister T2 this1 INA226_CONFIG ?w h2),
                  this1\<lparr>mConfigRegister := ?w\<rparr>,
                  h2 @ [TransmitCall (mI2C_Address this1)
                          [INA226_CONFIG, ucast (drop_bit 8 ?w AND 0xFF), ucast (?w AND 0xFF)]])"
      unfolding INA226_Wakeup_def Let_def WriteRegister_case
      using init1 False by simp
    show ?thesis
      apply (rule exI [where x = ?w])
      using w False apply simp
      done
  qed
qed

theorem wakeup_never_restores_shutdown_witness:
  "mInitialized (Config ready)
   \<and> INA226_Hibernate (bus_answering 0x45 0x24) (Config ready) []
       = (OK, (Config ready)\<lparr>mConfigRegister := 0x4524\<rparr>,
          [TransmitCall 0x40 [0x00], ReceiveCall 0x40 2, TransmitCall 0x40 [0x00],
           ReceiveCall 0x40 2, TransmitCall 0x40 [0x00, 0x45, 0x20]])
   \<and> 0 < ShuntAndBusVoltageContinuous chip_enumerators
   \<and> ShuntAndBusVoltageContinuous chip_enumerators \<le> 7
   \<and> ShuntAndBusVoltageContinuous chip_enumerators \<noteq> Shutdown chip_enumerators
   \<and> uint ((0x4524 :: 16 word) AND cOperatingModeMask) = Shutdown chip_enumerators
   \<and> (\<exists>w. INA226_Wakeup chip_enumerators (bus_answering 0x45 0x20)
              ((Config ready)\<lparr>mConfigRegister := 0x4524\<rparr>) []
            = (OK, (Config ready)\<lparr>mConfigRegister := w\<rparr>,
               [TransmitCall 0x40 [0x00, ucast (drop_bit 8 w AND 0xFF), ucast (w AND 0xFF)]])
          \<and> uint (w AND cOperatingModeMask) = 7)
   \<and> INA226_Wakeup chip_enumerators (bus_answering 0x45 0x20)
              ((Config ready)\<lparr>mConfigRegister := 0x4524\<rparr>) []
       = (OK, (Config ready)\<lparr>mConfigRegister := 0x4527\<rparr>, [TransmitCall 0x40 [0x00, 0x45, 0x27]])"
proof -
  have i: "mInitialized (Config ready)"
    by (simp add: ready_def)
  have hib: "INA226_Hibernate (bus_answering 0x45 0x24) (Config ready) []
       = (OK, (Config ready)\<lparr>mConfigRegister := 0x4524\<rparr>,
          [TransmitCall 0x40 [0x00], ReceiveCall 0x40 2, TransmitCall 0x40 [0x00],
           ReceiveCall 0x40 2, TransmitCall 0x40 [0x00, 0x45, 0x20]])"
    by (simp add: INA226_Hibernate_def access_defs register_defs constant_defs example_defs
        Let_def)
  have e: "0 < ShuntAndBusVoltageContinuous chip_enumerators"
    "ShuntAndBusVoltageContinuous chip_enumerators \<le> 7"
    "ShuntAndBusVoltageContinuous chip_enumerators \<noteq> Shutdown chip_enumerators"
    by (simp_all add: chip_enumerators_def)
  have m: "uint ((0x4524 :: 16 word) AND cOperatingModeMask) = Shutdown chip_enumerators"
    by (simp add: chip_enumerators_def cOperatingModeMask_def)
  have ok: "\<And>w. fst (INA226_WriteRegister (bus_answering 0x45 0x20)
                ((Config ready)\<lparr>mConfigRegister := 0x4524\<rparr>) INA226_CONFIG w []) = OK"
    by (simp add: INA226_WriteRegister_def bus_answering_def Let_def)
  have ev: "INA226_Wakeup chip_enumerators (bus_answering 0x45 0x20)
              ((Config ready)\<lparr>mConfigRegister := 0x4524\<rparr>) []
       = (OK, (Config ready)\<lparr>mConfigRegister := 0x4527\<rparr>, [TransmitCall 0x40 [0x00, 0x45, 0x27]])"
    by (simp add: INA226_Wakeup_def access_defs register_defs constant_defs example_defs Let_def)
  from wakeup_never_restores_shutdown [OF i hib e, of "bus_answering 0x45 0x20" "[]"]
  obtain w where w: "INA226_Wakeup chip_enumerators (bus_answering 0x45 0x20)
              ((Config ready)\<lparr>mConfigRegister := 0x4524\<rparr>) []
               = (fst (INA226_WriteRegister (bus_answering 0x45 0x20)
                        ((Config ready)\<lparr>mConfigRegister := 0x4524\<rparr>) INA226_CONFIG w []),
                  (Config ready)\<lparr>mConfigRegister := 0x4524\<rparr>\<lparr>mConfigRegister := w\<rparr>,
                  [] @ [TransmitCall (mI2C_Address ((Config ready)\<lparr>mConfigRegister := 0x4524\<rparr>))
                          [INA226_CONFIG, ucast (drop_bit 8 w AND 0xFF), ucast (w AND 0xFF)]])"
     and "uint ((0x4524 :: 16 word) AND cOperatingModeMask) = Shutdown chip_enumerators
            \<or> uint ((0x4524 :: 16 word) AND cOperatingModeMask) = 0
          \<longrightarrow> uint (w AND cOperatingModeMask) = ShuntAndBusVoltageContinuous chip_enumerators"
    by auto
  then have "INA226_Wakeup chip_enumerators (bus_answering 0x45 0x20)
              ((Config ready)\<lparr>mConfigRegister := 0x4524\<rparr>) []
            = (OK, (Config ready)\<lparr>mConfigRegister := w\<rparr>,
               [TransmitCall 0x40 [0x00, ucast (drop_bit 8 w AND 0xFF), ucast (w AND 0xFF)]])
          \<and> uint (w AND cOperatingModeMask) = 7"
    using m ok by (simp add: ready_def INA226_CONFIG_def chip_enumerators_def)
  then show ?thesis using i hib e m ev by blast
qed

subsection \<open>Sequencing with \<^verbatim>\<open>CALL_FN\<close>\<close>

text \<open>
  Claim C9 says that a step under \<^verbatim>\<open>CALL_FN\<close> runs its bus transaction once and that the
  function returns the step's error on its first failure. The macro makes the call twice
  and tests the second call only. On the simulated chip, with one failing bus call:
  \<^item> the first probe of \<^verbatim>\<open>INA226_Init\<close> fails (\<open>INVALID_I2C_ADDRESS\<close>), the second
    succeeds: \<^verbatim>\<open>INA226_Init\<close> goes on, returns \<open>OK\<close> and leaves the device initialised;
    the log shows every step of it twice;
  \<^item> the first probe succeeds and the second fails: \<^verbatim>\<open>INA226_Init\<close> returns the status of
    the first, \<open>OK\<close>, after the two probes, and the device is not initialised;
  \<^item> the first read of \<^verbatim>\<open>INA226_ConfigureNumSampleAveraging\<close> fails and the second
    succeeds: the register is written and \<open>OK\<close> comes back;
  \<^item> the first read succeeds and the second fails: \<open>OK\<close> comes back, nothing is written
    and the copy of the configuration register is zeroed;
  \<^item> the second write of the alert limit in \<^verbatim>\<open>INA226_ConfigureAlertPinTrigger\<close> fails:
    \<open>OK\<close> comes back and the mask/enable register is not written.
\<close>

theorem CALL_FN_makes_every_call_twice:
  "INA226_CheckI2cAddress (failing_at 0 chip) (INA226_Constructor (Config fresh) 1 0x40) 0x40 []
     = (INVALID_I2C_ADDRESS, [CheckCall 0x40 10])
   \<and> INA226_Init id saturating (failing_at 0 chip) fresh 1 0x40 (1 / 100) 20 []
     = (OK, ready,
         [CheckCall 0x40 10, CheckCall 0x40 10,
          TransmitCall 0x40 [0xFE], ReceiveCall 0x40 2, TransmitCall 0x40 [0xFE], ReceiveCall 0x40 2,
          TransmitCall 0x40 [0xFF], ReceiveCall 0x40 2, TransmitCall 0x40 [0xFF], ReceiveCall 0x40 2,
          TransmitCall 0x40 [0x00, 0x80, 0x00], TransmitCall 0x40 [0x00, 0x80, 0x00],
          TransmitCall 0x40 [0x00, 0x45, 0x27], TransmitCall 0x40 [0x00, 0x45, 0x27],
          TransmitCall 0x40 [0x00], ReceiveCall 0x40 2, TransmitCall 0x40 [0x00], ReceiveCall 0x40 2,
          TransmitCall 0x40 [0x05, 0x03, 0x54], TransmitCall 0x40 [0x05, 0x03, 0x54]])
   \<and> INA226_Init id saturating (failing_at 1 chip) fresh 1 0x40 (1 / 100) 20 []
     = (OK, fresh\<lparr>Config := INA226_Constructor (Config fresh) 1 0x40\<rparr>,
         [CheckCall 0x40 10, CheckCall 0x40 10])
   \<and> INA226_ConfigureNumSampleAveraging (failing_at 0 chip) (Config ready) 3 []
     = (OK, (Config ready)\<lparr>mConfigRegister := 0x4727\<rparr>,
         [TransmitCall 0x40 [0x00], TransmitCall 0x40 [0x00], ReceiveCall 0x40 2,
          TransmitCall 0x40 [0x00, 0x47, 0x27]])
   \<and> INA226_ConfigureNumSampleAveraging (failing_at 2 chip) (Config ready) 3 []
     = (OK, (Config ready)\<lparr>mConfigRegister := 0\<rparr>,
         [TransmitCall 0x40 [0x00], ReceiveCall 0x40 2, TransmitCall 0x40 [0x00]])
   \<and> INA226_ConfigureAlertPinTrigger chip_enumerators (failing_at 5 chip) (Config ready)
        0x2000 5000000 True []
     = Some (OK, Config ready,
         [TransmitCall 0x40 [0x06], ReceiveCall 0x40 2, TransmitCall 0x40 [0x06], ReceiveCall 0x40 2,
          TransmitCall 0x40 [0x07, 0x0F, 0xA0], TransmitCall 0x40 [0x07, 0x0F, 0xA0]])"
  by (simp add: INA226_Init_def INA226_Constructor_def INA226_ConfigureNumSampleAveraging_def
      INA226_ConfigureAlertPinTrigger_def theAlertValue_of_def int32_div_def
      access_defs calibration_defs register_defs constant_defs example_defs Let_def)

subsection \<open>Current and power before calibration\<close>

text \<open>
  Claim C10: while both scale factors are 0, as \<^verbatim>\<open>INA226_Constructor\<close> leaves them,
  \<^verbatim>\<open>INA226_GetCurrent_uA\<close> and \<^verbatim>\<open>INA226_GetPower_uW\<close> return 0 on every transport and
  from every log, whatever count the register read delivers and whether or not it
  succeeds. The getters return a value only; they have no status to report.
\<close>

theorem uncalibrated_current_and_power_are_zero:
  assumes "mCurrentMicroAmpsPerBit (Config this) = 0"
      and "mPowerMicroWattPerBit (Config this) = 0"
  shows "fst (INA226_GetCurrent_uA T this h) = 0 \<and> fst (INA226_GetPower_uW T this h) = 0"
  using assms
  by (simp add: INA226_GetCurrent_uA_def INA226_GetPower_uW_def split: prod.splits)

theorem uncalibrated_current_and_power_are_zero_witness:
  "mCurrentMicroAmpsPerBit (INA226_Constructor (Config ready) 1 0x40) = 0
   \<and> mPowerMicroWattPerBit (INA226_Constructor (Config ready) 1 0x40) = 0
   \<and> fst (INA226_ReadRegister (bus_answering 0x12 0x34)
            (INA226_Constructor (Config ready) 1 0x40) INA226_CURRENT []) = OK
   \<and> fst (INA226_GetCurrent_uA (bus_answering 0x12 0x34)
            (ready\<lparr>Config := INA226_Constructor (Config ready) 1 0x40\<rparr>) []) = 0
   \<and> fst (INA226_GetPower_uW (bus_answering 0x12 0x34)
            (ready\<lparr>Config := INA226_Constructor (Config ready) 1 0x40\<rparr>) []) = 0"
proof -
  have c: "mCurrentMicroAmpsPerBit (Config (ready\<lparr>Config := INA226_Constructor (Config ready) 1 0x40\<rparr>)) = 0"
    by (simp add: INA226_Constructor_def)
  have p: "mPowerMicroWattPerBit (Config (ready\<lparr>Config := INA226_Constructor (Config ready) 1 0x40\<rparr>)) = 0"
    by (simp add: INA226_Constructor_def)
  have r: "fst (INA226_ReadRegister (bus_answering 0x12 0x34)
            (INA226_Constructor (Config ready) 1 0x40) INA226_CURRENT []) = OK"
    by (simp add: access_defs example_defs Let_def)
  from uncalibrated_current_and_power_are_zero [OF c p] r show ?thesis
    by (simp add: INA226_Constructor_def)
qed

end
